theory Spec2Isabelle
  imports Complex_Main "HOL-Library.Sublist" "HOL-Library.Multiset"
begin

section \<open>JavaScript strings and values\<close>

text \<open>
  A string is the list of its UTF-16 code units, and a character is a code unit of the
  range U+0000 to U+00FF (Latin-1); a string with a code unit beyond U+00FF has no
  counterpart here. On this range \<open>toLowerCase\<close> works character by character: it
  maps \<open>A\<close>..\<open>Z\<close> and the capital letters U+00C0 to U+00DE (all of that range but the
  multiplication sign U+00D7) to the character 32 places further on, and leaves every
  other character alone.
\<close>

definition lower_char :: "char \<Rightarrow> char" where
  "lower_char c =
     (let n = (of_char c :: nat)
      in if (65 \<le> n \<and> n \<le> 90) \<or> (192 \<le> n \<and> n \<le> 222 \<and> n \<noteq> 215)
         then char_of (n + 32) else c)"

definition toLowerCase :: "string \<Rightarrow> string" where
  "toLowerCase s = map lower_char s"

text \<open>
  The white space of the regular-expression class \<open>\s\<close>, of \<open>trim\<close> and of \<open>parseInt\<close>:
  of the characters up to U+00FF these are tab, line feed, vertical tab, form feed,
  carriage return, space and the no-break space U+00A0.
\<close>

definition is_space :: "char \<Rightarrow> bool" where
  "is_space c = ((of_char c :: nat) \<in> {9, 10, 11, 12, 13, 32, 160})"


text \<open>\<open>s.trim()\<close>\<close>

definition trim :: "string \<Rightarrow> string" where
  "trim s = rev (dropWhile is_space (rev (dropWhile is_space s)))"

text \<open>
  A JavaScript value as far as the program looks at it: the primitives, with numbers
  restricted to the integers and \<open>NaN\<close>, and objects. The program reads no property of
  an object that is the value of a property (an array, a \<open>Date\<close>, a nested record): it
  tests it for truthiness and compares it with \<open>!==\<close>, that is by reference. So an
  object is given by its reference alone: \<open>JObject r\<close> is the object at reference \<open>r\<close>,
  and two values \<open>JObject r\<close> are the same object. A reference tells where the object
  was built: \<open>Received n\<close> is an object of a request (of its body as parsed, or built
  from it), \<open>Stored n\<close> one that the database driver builds when it returns a row; no
  object is both. \<open>JBuiltin k\<close> is the object a plain object inherits under the name
  \<open>k\<close>: a method of \<open>Object.prototype\<close>, and for \<open>__proto__\<close> that prototype itself.
\<close>

datatype ref = Received nat | Stored nat

datatype jsval =
    JUndefined
  | JNull
  | JBool bool
  | JNum int
  | JNaN
  | JStr string
  | JObject ref
  | JBuiltin string

text \<open>
  A plain record object (\<open>Record<string, unknown>\<close>, an object literal or what
  \<open>JSON.parse\<close> and the database driver build): its own enumerable properties in
  iteration order; its prototype is \<open>Object.prototype\<close>. A well-formed object has no key
  twice.
\<close>

type_synonym obj = "(string \<times> jsval) list"

definition Object_keys :: "obj \<Rightarrow> string list" where
  "Object_keys ob = map fst ob"

definition wf_obj :: "obj \<Rightarrow> bool" where
  "wf_obj ob = distinct (Object_keys ob)"

text \<open>The names under which a plain object inherits a value from \<open>Object.prototype\<close>.\<close>

definition Object_prototype :: "string list" where
  "Object_prototype =
     [''constructor'', ''__defineGetter__'', ''__defineSetter__'', ''hasOwnProperty'',
      ''__lookupGetter__'', ''__lookupSetter__'', ''isPrototypeOf'', ''propertyIsEnumerable'',
      ''toString'', ''valueOf'', ''__proto__'', ''toLocaleString'']"

text \<open>
  \<open>ob[k]\<close> and \<open>ob.k\<close>: the object's own property, else the one it inherits, else
  \<open>undefined\<close>.
\<close>

definition get_prop :: "obj \<Rightarrow> string \<Rightarrow> jsval" where
  "get_prop ob k =
     (case map_of ob k of
        Some v \<Rightarrow> v
      | None \<Rightarrow> if k \<in> set Object_prototype then JBuiltin k else JUndefined)"

text \<open>
  \<open>a !== b\<close>: primitives differ when their values do, objects when their references
  do, and \<open>NaN\<close> differs from everything, itself included.
\<close>

definition strict_neq :: "jsval \<Rightarrow> jsval \<Rightarrow> bool" where
  "strict_neq a b = (a \<noteq> b \<or> a = JNaN)"

text \<open>Truthiness, as \<open>!v\<close>, \<open>v && ...\<close> and \<open>v || ...\<close> test it.\<close>

fun truthy :: "jsval \<Rightarrow> bool" where
  "truthy JUndefined = False"
| "truthy JNull = False"
| "truthy (JBool b) = b"
| "truthy (JNum n) = (n \<noteq> 0)"
| "truthy JNaN = False"
| "truthy (JStr s) = (s \<noteq> [])"
| "truthy (JObject r) = True"
| "truthy (JBuiltin k) = True"

section \<open>The audit diff (routes: getChanges)\<close>

record change =
  field :: string
  oldValue :: jsval
  newValue :: jsval

text \<open>The loop body of \<open>getChanges\<close> over the keys still to visit, \<open>changes\<close> being
  the array built so far.\<close>

fun getChanges_loop :: "obj \<Rightarrow> obj \<Rightarrow> string list \<Rightarrow> change list \<Rightarrow> change list" where
  "getChanges_loop oldData newData [] changes = changes"
| "getChanges_loop oldData newData (key # keys) changes =
     (if strict_neq (get_prop oldData key) (get_prop newData key)
      then getChanges_loop oldData newData keys
             (changes @ [\<lparr>field = key, oldValue = get_prop oldData key, newValue = get_prop newData key\<rparr>])
      else getChanges_loop oldData newData keys changes)"

definition getChanges :: "obj \<Rightarrow> obj \<Rightarrow> change list" where
  "getChanges oldData newData = getChanges_loop oldData newData (Object_keys newData) []"

section \<open>The import page's column-mapping heuristic\<close>





record asset_field =
  key :: string
  label :: string
  required :: bool





section \<open>Role derivation from directory groups (ldap: getUserRole)\<close>


record LdapUser =
  dn :: string
  employeeId :: string
  displayName :: string
  email :: string
  sAMAccountName :: string
  department :: "string option"
  title :: "string option"
  manager :: "string option"
  officeLocation :: "string option"
  phone :: "string option"
  memberOf :: "string list"

datatype role = Admin | User | Readonly

text \<open>An optional string is truthy when it is present and not empty.\<close>

fun is_set :: "string option \<Rightarrow> bool" where
  "is_set None = False"
| "is_set (Some s) = (s \<noteq> [])"





section \<open>The database (shared/schema and the storage layer)\<close>

text \<open>\<open>{...ob, k: v}\<close>: the property is overwritten in place, or added last.\<close>

definition set_prop :: "obj \<Rightarrow> string \<Rightarrow> jsval \<Rightarrow> obj" where
  "set_prop ob k v =
     (if k \<in> set (Object_keys ob)
      then map (\<lambda>(k', v'). if k' = k then (k', v) else (k', v')) ob
      else ob @ [(k, v)])"

text \<open>\<open>a || b\<close>\<close>

definition js_or :: "jsval \<Rightarrow> jsval \<Rightarrow> jsval" where
  "js_or a b = (if truthy a then a else b)"

text \<open>
  A row of \<open>categories\<close>, \<open>ad_users\<close>, \<open>assets\<close> or \<open>users\<close> is an object with one property
  per column, in the order of the table's declaration; SQL \<open>NULL\<close> reads as \<open>null\<close>. A
  column is declared by its name, its type (\<open>Text\<close> for \<open>text\<close> and \<open>varchar\<close>) and its
  default.
\<close>

datatype sql_type = Text | Boolean | Timestamp | Jsonb

datatype col_default = NoDefault | DefaultValue jsval | GenRandomUuid | DefaultNow

type_synonym column = "string \<times> sql_type \<times> col_default"

text \<open>\<open>n.toString()\<close> for an integer \<open>n\<close> of magnitude below \<open>10^21\<close>: its decimal digits.\<close>

fun decimal :: "nat \<Rightarrow> string" where
  "decimal n =
     (if n < 10 then [char_of (48 + n)] else decimal (n div 10) @ [char_of (48 + n mod 10)])"

declare decimal.simps [simp del]

definition Number_toString :: "int \<Rightarrow> string" where
  "Number_toString n = (if n < 0 then CHR ''-'' # decimal (nat (- n)) else decimal (nat n))"

text \<open>
  What a character column holds for a value written to it, and what a character column
  is compared with: the driver sends a string as it is, \<open>null\<close> and \<open>undefined\<close> as
  \<open>NULL\<close>, and a number or a boolean as its \<open>toString()\<close>. It sends an object as its
  JSON text, and a number of magnitude \<open>10^21\<close> or more in exponent notation; these two
  texts are not modelled, such a value is kept as it is.
\<close>

fun to_text :: "jsval \<Rightarrow> jsval" where
  "to_text JUndefined = JNull"
| "to_text JNull = JNull"
| "to_text (JBool b) = JStr (if b then ''true'' else ''false'')"
| "to_text (JNum n) = (if \<bar>n\<bar> < 10 ^ 21 then JStr (Number_toString n) else JNum n)"
| "to_text JNaN = JStr ''NaN''"
| "to_text (JStr s) = JStr s"
| "to_text (JObject r) = JObject r"
| "to_text (JBuiltin k) = JBuiltin k"


text \<open>
  A column of another type is written by validated routes only, with values of the
  column's type. A boolean is kept; a \<open>Date\<close> or a JSON object is an object of the
  request, and the column returns one that the driver builds.
\<close>

definition stored :: "jsval \<Rightarrow> jsval" where
  "stored v = (case v of JObject (Received n) \<Rightarrow> JObject (Stored n) | _ \<Rightarrow> v)"

text \<open>The cell a value makes in a column of type \<open>ty\<close>.\<close>

definition cell :: "sql_type \<Rightarrow> jsval \<Rightarrow> jsval" where
  "cell ty v = (if ty = Text then to_text v else stored v)"

definition categories_columns :: "column list" where
  "categories_columns =
     [(''id'', Text, GenRandomUuid),
      (''name'', Text, NoDefault),
      (''description'', Text, NoDefault),
      (''parentId'', Text, NoDefault),
      (''icon'', Text, DefaultValue (JStr ''folder'')),
      (''color'', Text, DefaultValue (JStr ''#3b82f6'')),
      (''createdAt'', Timestamp, DefaultNow),
      (''updatedAt'', Timestamp, DefaultNow)]"

definition adUsers_columns :: "column list" where
  "adUsers_columns =
     [(''id'', Text, GenRandomUuid),
      (''employeeId'', Text, NoDefault),
      (''displayName'', Text, NoDefault),
      (''email'', Text, NoDefault),
      (''department'', Text, NoDefault),
      (''title'', Text, NoDefault),
      (''manager'', Text, NoDefault),
      (''officeLocation'', Text, NoDefault),
      (''phone'', Text, NoDefault),
      (''isActive'', Boolean, DefaultValue (JBool True)),
      (''lastSyncAt'', Timestamp, DefaultNow),
      (''createdAt'', Timestamp, DefaultNow),
      (''updatedAt'', Timestamp, DefaultNow)]"

text \<open>
  The default of \<open>customFields\<close> is the empty JSON object, which a row returns as the
  object \<open>Stored 0\<close>.
\<close>

definition assets_columns :: "column list" where
  "assets_columns =
     [(''id'', Text, GenRandomUuid),
      (''assetTag'', Text, NoDefault),
      (''name'', Text, NoDefault),
      (''description'', Text, NoDefault),
      (''categoryId'', Text, NoDefault),
      (''assignedUserId'', Text, NoDefault),
      (''status'', Text, DefaultValue (JStr ''active'')),
      (''manufacturer'', Text, NoDefault),
      (''model'', Text, NoDefault),
      (''serialNumber'', Text, NoDefault),
      (''purchaseDate'', Timestamp, NoDefault),
      (''purchaseCost'', Text, NoDefault),
      (''warrantyExpiry'', Timestamp, NoDefault),
      (''location'', Text, NoDefault),
      (''notes'', Text, NoDefault),
      (''customFields'', Jsonb, DefaultValue (JObject (Stored 0))),
      (''createdAt'', Timestamp, DefaultNow),
      (''updatedAt'', Timestamp, DefaultNow)]"

definition ASSET_STATUSES :: "string list" where
  "ASSET_STATUSES =
     [''active'', ''inactive'', ''maintenance'', ''retired'', ''disposed'', ''lost'', ''stolen'']"

text \<open>An audit log row, typed as the table \<open>audit_logs\<close> declares it.\<close>

record InsertAuditLog =
  entityType :: string
  entityId :: jsval
  action :: string
  userId :: jsval
  userName :: string
  previousData :: "obj option"
  newData :: "obj option"
  changes :: "change list option"
  ipAddress :: string
  userAgent :: string

record AuditLog = InsertAuditLog +
  logId :: jsval
  createdAt :: nat

text \<open>
  The database: the rows of each table in insertion order, and the number of identifiers
  \<open>gen_random_uuid()\<close> has produced. The columns of \<open>users\<close> are declared in the module
  \<open>shared/models/auth\<close>; they are a parameter \<open>users_columns\<close> of the operations on that
  table.
\<close>

record db =
  categories :: "obj list"
  adUsers :: "obj list"
  assets :: "obj list"
  auditLogs :: "AuditLog list"
  users :: "obj list"
  uuids :: nat

definition empty_db :: db where
  "empty_db = \<lparr>categories = [], adUsers = [], assets = [], auditLogs = [], users = [], uuids = 0\<rparr>"

text \<open>
  \<open>gen_random_uuid()\<close> never repeats an identifier: the \<open>n\<close>-th one is \<open>uuid_of n\<close>, an
  injective enumeration of strings.
\<close>

definition uuid_of :: "nat \<Rightarrow> string" where
  "uuid_of n = ''uuid-'' @ replicate n (CHR ''i'')"

definition gen_random_uuid :: "db \<Rightarrow> jsval" where
  "gen_random_uuid s = JStr (uuid_of (uuids s))"

text \<open>
  A timestamp cell reads as a \<open>Date\<close>, an object that the driver builds. The \<open>Date\<close> of a
  timestamp that the database sets while a request is served at time \<open>now\<close> is the object
  \<open>Stored now\<close>. (The program compares an object of a row only with the values of a
  request's body, never with an object of a row.)
\<close>

definition Date_at :: "nat \<Rightarrow> jsval" where
  "Date_at now = JObject (Stored now)"

text \<open>
  The row an \<open>INSERT\<close> of \<open>data\<close> builds: a property that is missing or \<open>undefined\<close> takes
  the column's default, \<open>NULL\<close> when it has none; properties that are no columns are
  ignored.
\<close>

definition new_row :: "column list \<Rightarrow> nat \<Rightarrow> jsval \<Rightarrow> obj \<Rightarrow> obj" where
  "new_row cols now uuid data =
     map (\<lambda>(c, ty, d). (c,
            let v = get_prop data c
            in if v \<noteq> JUndefined then cell ty v
               else (case d of
                       NoDefault \<Rightarrow> JNull
                     | DefaultValue x \<Rightarrow> x
                     | GenRandomUuid \<Rightarrow> uuid
                     | DefaultNow \<Rightarrow> Date_at now))) cols"

text \<open>
  The row an \<open>UPDATE ... SET\<close> of \<open>vals\<close> leaves, in a table of columns \<open>cols\<close>:
  \<open>undefined\<close> values are skipped.
\<close>

definition column_type :: "column list \<Rightarrow> string \<Rightarrow> sql_type" where
  "column_type cols c = (case map_of cols c of Some (ty, d) \<Rightarrow> ty | None \<Rightarrow> Jsonb)"

definition set_values :: "column list \<Rightarrow> obj \<Rightarrow> obj \<Rightarrow> obj" where
  "set_values cols row vals =
     map (\<lambda>(c, v). (c, let d = get_prop vals c
                     in if d = JUndefined then v else cell (column_type cols c) d)) row"

subsection \<open>Constraints\<close>

definition column_values :: "string \<Rightarrow> obj list \<Rightarrow> jsval list" where
  "column_values c rows = map (\<lambda>r. get_prop r c) rows"

definition not_null :: "string \<Rightarrow> obj list \<Rightarrow> bool" where
  "not_null c rows = (JNull \<notin> set (column_values c rows))"

definition unique :: "string \<Rightarrow> obj list \<Rightarrow> bool" where
  "unique c rows = distinct (filter (\<lambda>v. v \<noteq> JNull) (column_values c rows))"

definition primary_key :: "obj list \<Rightarrow> bool" where
  "primary_key rows = (not_null ''id'' rows \<and> unique ''id'' rows)"

definition foreign_key :: "string \<Rightarrow> obj list \<Rightarrow> obj list \<Rightarrow> bool" where
  "foreign_key c rows parents =
     list_all (\<lambda>v. v = JNull \<or> v \<in> set (column_values ''id'' parents)) (column_values c rows)"

text \<open>
  The database stores no string that holds the character U+0000: a statement that sends
  one throws.
\<close>

definition no_NUL :: "obj list \<Rightarrow> bool" where
  "no_NUL rows =
     list_all
       (\<lambda>r. list_all (\<lambda>(c, v). case v of JStr s \<Rightarrow> CHR 0x00 \<notin> set s | _ \<Rightarrow> True) r) rows"

text \<open>
  The constraints the schema declares on the three entity tables, and the primary key of
  \<open>users\<close>. A statement that would leave the database violating one of them throws and
  changes nothing.
\<close>

definition constraints :: "db \<Rightarrow> bool" where
  "constraints s =
     (primary_key (categories s) \<and> not_null ''name'' (categories s) \<and>
      primary_key (adUsers s) \<and> unique ''employeeId'' (adUsers s) \<and>
      not_null ''displayName'' (adUsers s) \<and> unique ''email'' (adUsers s) \<and>
      primary_key (assets s) \<and> unique ''assetTag'' (assets s) \<and>
      not_null ''assetTag'' (assets s) \<and> not_null ''name'' (assets s) \<and>
      not_null ''status'' (assets s) \<and>
      foreign_key ''categoryId'' (assets s) (categories s) \<and>
      foreign_key ''assignedUserId'' (assets s) (adUsers s) \<and>
      primary_key (users s) \<and>
      no_NUL (categories s) \<and> no_NUL (adUsers s) \<and> no_NUL (assets s) \<and> no_NUL (users s))"

text \<open>
  \<open>eq(column, v)\<close> in a \<open>WHERE\<close> clause, for a character column (the program compares no
  other): the column is compared with the text of \<open>v\<close>, and no row matches \<open>NULL\<close>. A
  text that holds U+0000 matches no row; that the database refuses such a query as well
  is left out of the reading operations.
\<close>

definition sql_eq :: "string \<Rightarrow> jsval \<Rightarrow> obj \<Rightarrow> bool" where
  "sql_eq c v r = (to_text v \<noteq> JNull \<and> get_prop r c = to_text v)"

subsection \<open>DatabaseStorage\<close>

text \<open>
  A reading operation returns its rows; a writing one returns \<open>None\<close> when the statement
  throws, and otherwise its result with the new database.
\<close>

definition getCategory :: "db \<Rightarrow> jsval \<Rightarrow> obj option" where
  "getCategory s ident = find (sql_eq ''id'' ident) (categories s)"

definition createCategory :: "db \<Rightarrow> nat \<Rightarrow> obj \<Rightarrow> (obj \<times> db) option" where
  "createCategory s now data =
     (let category = new_row categories_columns now (gen_random_uuid s) data;
          s' = s\<lparr>categories := categories s @ [category], uuids := uuids s + 1\<rparr>
      in if constraints s' then Some (category, s') else None)"

definition updateCategory :: "db \<Rightarrow> nat \<Rightarrow> jsval \<Rightarrow> obj \<Rightarrow> (obj option \<times> db) option" where
  "updateCategory s now ident data =
     (let vals = set_prop data ''updatedAt'' (Date_at now);
          s' = s\<lparr>categories :=
                 map (\<lambda>r. if sql_eq ''id'' ident r then set_values categories_columns r vals else r)
                   (categories s)\<rparr>
      in if constraints s'
         then Some (map_option (\<lambda>r. set_values categories_columns r vals)
                      (find (sql_eq ''id'' ident) (categories s)), s')
         else None)"

definition deleteCategory :: "db \<Rightarrow> jsval \<Rightarrow> (bool \<times> db) option" where
  "deleteCategory s ident =
     (let s' = s\<lparr>categories := filter (\<lambda>r. \<not> sql_eq ''id'' ident r) (categories s)\<rparr>
      in if constraints s' then Some (list_ex (sql_eq ''id'' ident) (categories s), s') else None)"

definition getAsset :: "db \<Rightarrow> jsval \<Rightarrow> obj option" where
  "getAsset s ident = find (sql_eq ''id'' ident) (assets s)"

definition getAssetByTag :: "db \<Rightarrow> jsval \<Rightarrow> obj option" where
  "getAssetByTag s assetTag = find (sql_eq ''assetTag'' assetTag) (assets s)"

definition createAsset :: "db \<Rightarrow> nat \<Rightarrow> obj \<Rightarrow> (obj \<times> db) option" where
  "createAsset s now data =
     (let asset = new_row assets_columns now (gen_random_uuid s) data;
          s' = s\<lparr>assets := assets s @ [asset], uuids := uuids s + 1\<rparr>
      in if constraints s' then Some (asset, s') else None)"

definition updateAsset :: "db \<Rightarrow> nat \<Rightarrow> jsval \<Rightarrow> obj \<Rightarrow> (obj option \<times> db) option" where
  "updateAsset s now ident data =
     (let vals = set_prop data ''updatedAt'' (Date_at now);
          s' = s\<lparr>assets :=
                 map (\<lambda>r. if sql_eq ''id'' ident r then set_values assets_columns r vals else r)
                   (assets s)\<rparr>
      in if constraints s'
         then Some (map_option (\<lambda>r. set_values assets_columns r vals)
                      (find (sql_eq ''id'' ident) (assets s)), s')
         else None)"

definition deleteAsset :: "db \<Rightarrow> jsval \<Rightarrow> (bool \<times> db) option" where
  "deleteAsset s ident =
     (let s' = s\<lparr>assets := filter (\<lambda>r. \<not> sql_eq ''id'' ident r) (assets s)\<rparr>
      in if constraints s' then Some (list_ex (sql_eq ''id'' ident) (assets s), s') else None)"

definition getAdUser :: "db \<Rightarrow> jsval \<Rightarrow> obj option" where
  "getAdUser s ident = find (sql_eq ''id'' ident) (adUsers s)"

definition getAdUserByEmail :: "db \<Rightarrow> jsval \<Rightarrow> obj option" where
  "getAdUserByEmail s mail =
     (if \<not> truthy mail then None else find (sql_eq ''email'' mail) (adUsers s))"

definition createAdUser :: "db \<Rightarrow> nat \<Rightarrow> obj \<Rightarrow> (obj \<times> db) option" where
  "createAdUser s now data =
     (let adUser = new_row adUsers_columns now (gen_random_uuid s) data;
          s' = s\<lparr>adUsers := adUsers s @ [adUser], uuids := uuids s + 1\<rparr>
      in if constraints s' then Some (adUser, s') else None)"

definition updateAdUser :: "db \<Rightarrow> nat \<Rightarrow> jsval \<Rightarrow> obj \<Rightarrow> (obj option \<times> db) option" where
  "updateAdUser s now ident data =
     (let vals = set_prop data ''updatedAt'' (Date_at now);
          s' = s\<lparr>adUsers :=
                 map (\<lambda>r. if sql_eq ''id'' ident r then set_values adUsers_columns r vals else r)
                   (adUsers s)\<rparr>
      in if constraints s'
         then Some (map_option (\<lambda>r. set_values adUsers_columns r vals)
                      (find (sql_eq ''id'' ident) (adUsers s)), s')
         else None)"

definition deleteAdUser :: "db \<Rightarrow> jsval \<Rightarrow> (bool \<times> db) option" where
  "deleteAdUser s ident =
     (let s' = s\<lparr>adUsers := filter (\<lambda>r. \<not> sql_eq ''id'' ident r) (adUsers s)\<rparr>
      in if constraints s' then Some (list_ex (sql_eq ''id'' ident) (adUsers s), s') else None)"

text \<open>
  \<open>createAuditLog\<close>. The table has a generated primary key and \<open>NOT NULL\<close> on the three
  columns every caller fills, so the insertion does not throw.
\<close>

definition createAuditLog :: "db \<Rightarrow> nat \<Rightarrow> InsertAuditLog \<Rightarrow> AuditLog \<times> db" where
  "createAuditLog s now data =
     (let log = InsertAuditLog.extend data
                  (AuditLog.fields (gen_random_uuid s) now)
      in (log, s\<lparr>auditLogs := auditLogs s @ [log], uuids := uuids s + 1\<rparr>))"



text \<open>
  \<open>getAuditLogs\<close>. The limit is a number or \<open>undefined\<close>. The query builder adds
  \<open>LIMIT n\<close> for a truthy limit that is not negative; the database takes a 64-bit
  \<open>LIMIT\<close>, and a larger one makes the query throw.
\<close>

definition getAuditLogs ::
  "(AuditLog list \<Rightarrow> AuditLog list) \<Rightarrow> db \<Rightarrow> jsval \<Rightarrow> AuditLog list option" where
  "getAuditLogs order_by s limit =
     (let query = order_by (auditLogs s)
      in if truthy limit
         then (case limit of
                 JNum n \<Rightarrow>
                   if n < 0 then Some query
                   else if n < 2 ^ 63 then Some (take (nat n) query)
                   else None
               | _ \<Rightarrow> None)
         else Some query)"

definition getAuditLogsByEntity ::
  "(AuditLog list \<Rightarrow> AuditLog list) \<Rightarrow> db \<Rightarrow> string \<Rightarrow> jsval \<Rightarrow> AuditLog list" where
  "getAuditLogsByEntity order_by s etype eid =
     order_by (filter (\<lambda>l. entityType l = etype \<and> entityId l = eid) (auditLogs s))"

section \<open>Requests and responses\<close>

text \<open>The session user, as far as \<open>getUserInfo\<close> reads it.\<close>

record SafeUser =
  su_id :: string
  su_email :: "string option"
  su_firstName :: "string option"
  su_lastName :: "string option"

text \<open>
  What a handler reads of an Express request besides its parameters and body: the
  session user (\<open>req.isAuthenticated()\<close> holds when there is one), the client's address
  and user agent, and the time at which the request is served, which every timestamp
  written for it carries.
\<close>

record request =
  req_user :: "SafeUser option"
  req_ip :: "string option"
  remoteAddress :: "string option"
  user_agent :: "string option"
  req_time :: nat

datatype body =
    Message string
  | Entity "obj option"
  | Success bool
  | Imported nat nat nat
  | Synced nat nat nat
  | Logs "AuditLog list"

record response =
  status :: nat
  body :: body

definition json :: "body \<Rightarrow> response" where
  "json b = \<lparr>status = 200, body = b\<rparr>"

definition isAuthenticated :: "request \<Rightarrow> bool" where
  "isAuthenticated req = (req_user req \<noteq> None)"

definition unauthorized :: response where
  "unauthorized = \<lparr>status = 401, body = Message ''Unauthorized''\<rparr>"

text \<open>\<open>a || b\<close> on optional strings\<close>

definition str_or :: "string option \<Rightarrow> string \<Rightarrow> string" where
  "str_or a b = (if is_set a then the a else b)"

definition getClientInfo :: "request \<Rightarrow> string \<times> string" where
  "getClientInfo req =
     (str_or (req_ip req) (str_or (remoteAddress req) ''unknown''),
      str_or (user_agent req) ''unknown'')"

definition getUserInfo :: "request \<Rightarrow> jsval \<times> string" where
  "getUserInfo req =
     (case req_user req of
        None \<Rightarrow> (JNull, ''System'')
      | Some u \<Rightarrow>
          (if su_id u \<noteq> [] then JStr (su_id u) else JNull,
           if is_set (su_firstName u)
           then trim (the (su_firstName u) @ '' '' @ str_or (su_lastName u) [])
           else str_or (su_email u) ''System''))"

text \<open>The audit record a handler writes: who and from where, then what.\<close>

definition audit_data ::
  "request \<Rightarrow> string \<Rightarrow> jsval \<Rightarrow> string \<Rightarrow> obj option \<Rightarrow> obj option \<Rightarrow> change list option
     \<Rightarrow> InsertAuditLog" where
  "audit_data req etype eid act prev new chg =
     \<lparr>entityType = etype, entityId = eid, action = act,
      userId = fst (getUserInfo req), userName = snd (getUserInfo req),
      previousData = prev, newData = new, changes = chg,
      ipAddress = fst (getClientInfo req), userAgent = snd (getClientInfo req)\<rparr>"

section \<open>The route handlers\<close>

text \<open>
  A handler maps the database and the request to the response and the new database. The
  body of a validated route is given by what the schema's \<open>parse\<close> makes of it: \<open>Inl m\<close>
  when it throws a \<open>ZodError\<close> whose first message is \<open>m\<close>, \<open>Inr data\<close> when it returns
  \<open>data\<close>.
\<close>

subsection \<open>Categories\<close>

definition post_categories :: "db \<Rightarrow> request \<Rightarrow> string + obj \<Rightarrow> response \<times> db" where
  "post_categories s req parsed =
     (if \<not> isAuthenticated req then (unauthorized, s)
      else case parsed of
        Inl m \<Rightarrow> (\<lparr>status = 400, body = Message m\<rparr>, s)
      | Inr data \<Rightarrow>
          (case createCategory s (req_time req) data of
             None \<Rightarrow> (\<lparr>status = 500, body = Message ''Failed to create category''\<rparr>, s)
           | Some (category, s1) \<Rightarrow>
               (\<lparr>status = 201, body = Entity (Some category)\<rparr>,
                snd (createAuditLog s1 (req_time req)
                  (audit_data req ''category'' (get_prop category ''id'') ''create''
                     None (Some category) None)))))"

definition patch_categories :: "db \<Rightarrow> request \<Rightarrow> string \<Rightarrow> string + obj \<Rightarrow> response \<times> db" where
  "patch_categories s req ident parsed =
     (if \<not> isAuthenticated req then (unauthorized, s)
      else case getCategory s (JStr ident) of
        None \<Rightarrow> (\<lparr>status = 404, body = Message ''Category not found''\<rparr>, s)
      | Some existing \<Rightarrow>
          (case parsed of
             Inl m \<Rightarrow> (\<lparr>status = 400, body = Message m\<rparr>, s)
           | Inr data \<Rightarrow>
               (case updateCategory s (req_time req) (JStr ident) data of
                  None \<Rightarrow> (\<lparr>status = 500, body = Message ''Failed to update category''\<rparr>, s)
                | Some (category, s1) \<Rightarrow>
                    (json (Entity category),
                     snd (createAuditLog s1 (req_time req)
                       (audit_data req ''category'' (JStr ident) ''update''
                          (Some existing) category (Some (getChanges existing data))))))))"

definition delete_categories :: "db \<Rightarrow> request \<Rightarrow> string \<Rightarrow> response \<times> db" where
  "delete_categories s req ident =
     (if \<not> isAuthenticated req then (unauthorized, s)
      else case getCategory s (JStr ident) of
        None \<Rightarrow> (\<lparr>status = 404, body = Message ''Category not found''\<rparr>, s)
      | Some existing \<Rightarrow>
          (case deleteCategory s (JStr ident) of
             None \<Rightarrow> (\<lparr>status = 500, body = Message ''Failed to delete category''\<rparr>, s)
           | Some (deleted, s1) \<Rightarrow>
               (json (Success deleted),
                snd (createAuditLog s1 (req_time req)
                  (audit_data req ''category'' (JStr ident) ''delete''
                     (Some existing) None None)))))"

subsection \<open>Assets\<close>

definition post_assets :: "db \<Rightarrow> request \<Rightarrow> string + obj \<Rightarrow> response \<times> db" where
  "post_assets s req parsed =
     (if \<not> isAuthenticated req then (unauthorized, s)
      else case parsed of
        Inl m \<Rightarrow> (\<lparr>status = 400, body = Message m\<rparr>, s)
      | Inr data \<Rightarrow>
          (case getAssetByTag s (get_prop data ''assetTag'') of
             Some existingAsset \<Rightarrow>
               (\<lparr>status = 400, body = Message ''Asset tag already exists''\<rparr>, s)
           | None \<Rightarrow>
               (case createAsset s (req_time req) data of
                  None \<Rightarrow> (\<lparr>status = 500, body = Message ''Failed to create asset''\<rparr>, s)
                | Some (asset, s1) \<Rightarrow>
                    (\<lparr>status = 201, body = Entity (Some asset)\<rparr>,
                     snd (createAuditLog s1 (req_time req)
                       (audit_data req ''asset'' (get_prop asset ''id'') ''create''
                          None (Some asset) None))))))"

text \<open>What \<open>PATCH /api/assets/:id\<close> does once the asset tag has passed its check.\<close>

definition patch_assets_update :: "db \<Rightarrow> request \<Rightarrow> string \<Rightarrow> obj \<Rightarrow> obj \<Rightarrow> response \<times> db" where
  "patch_assets_update s req ident existing data =
     (case updateAsset s (req_time req) (JStr ident) data of
        None \<Rightarrow> (\<lparr>status = 500, body = Message ''Failed to update asset''\<rparr>, s)
      | Some (asset, s1) \<Rightarrow>
          (json (Entity asset),
           snd (createAuditLog s1 (req_time req)
             (audit_data req ''asset'' (JStr ident) ''update''
                (Some existing) asset (Some (getChanges existing data))))))"

definition patch_assets :: "db \<Rightarrow> request \<Rightarrow> string \<Rightarrow> string + obj \<Rightarrow> response \<times> db" where
  "patch_assets s req ident parsed =
     (if \<not> isAuthenticated req then (unauthorized, s)
      else case getAsset s (JStr ident) of
        None \<Rightarrow> (\<lparr>status = 404, body = Message ''Asset not found''\<rparr>, s)
      | Some existing \<Rightarrow>
          (case parsed of
             Inl m \<Rightarrow> (\<lparr>status = 400, body = Message m\<rparr>, s)
           | Inr data \<Rightarrow>
               if truthy (get_prop data ''assetTag'') \<and>
                  strict_neq (get_prop data ''assetTag'') (get_prop existing ''assetTag'')
               then (case getAssetByTag s (get_prop data ''assetTag'') of
                       Some existingAsset \<Rightarrow>
                         (\<lparr>status = 400, body = Message ''Asset tag already exists''\<rparr>, s)
                     | None \<Rightarrow> patch_assets_update s req ident existing data)
               else patch_assets_update s req ident existing data))"

definition delete_assets :: "db \<Rightarrow> request \<Rightarrow> string \<Rightarrow> response \<times> db" where
  "delete_assets s req ident =
     (if \<not> isAuthenticated req then (unauthorized, s)
      else case getAsset s (JStr ident) of
        None \<Rightarrow> (\<lparr>status = 404, body = Message ''Asset not found''\<rparr>, s)
      | Some existing \<Rightarrow>
          (case deleteAsset s (JStr ident) of
             None \<Rightarrow> (\<lparr>status = 500, body = Message ''Failed to delete asset''\<rparr>, s)
           | Some (deleted, s1) \<Rightarrow>
               (json (Success deleted),
                snd (createAuditLog s1 (req_time req)
                  (audit_data req ''asset'' (JStr ident) ''delete''
                     (Some existing) None None)))))"

subsection \<open>Directory users\<close>

definition post_ad_users :: "db \<Rightarrow> request \<Rightarrow> string + obj \<Rightarrow> response \<times> db" where
  "post_ad_users s req parsed =
     (if \<not> isAuthenticated req then (unauthorized, s)
      else case parsed of
        Inl m \<Rightarrow> (\<lparr>status = 400, body = Message m\<rparr>, s)
      | Inr data \<Rightarrow>
          (case createAdUser s (req_time req) data of
             None \<Rightarrow> (\<lparr>status = 500, body = Message ''Failed to create AD user''\<rparr>, s)
           | Some (adUser, s1) \<Rightarrow>
               (\<lparr>status = 201, body = Entity (Some adUser)\<rparr>,
                snd (createAuditLog s1 (req_time req)
                  (audit_data req ''user'' (get_prop adUser ''id'') ''create''
                     None (Some adUser) None)))))"

definition patch_ad_users :: "db \<Rightarrow> request \<Rightarrow> string \<Rightarrow> string + obj \<Rightarrow> response \<times> db" where
  "patch_ad_users s req ident parsed =
     (if \<not> isAuthenticated req then (unauthorized, s)
      else case getAdUser s (JStr ident) of
        None \<Rightarrow> (\<lparr>status = 404, body = Message ''User not found''\<rparr>, s)
      | Some existing \<Rightarrow>
          (case parsed of
             Inl m \<Rightarrow> (\<lparr>status = 400, body = Message m\<rparr>, s)
           | Inr data \<Rightarrow>
               (case updateAdUser s (req_time req) (JStr ident) data of
                  None \<Rightarrow> (\<lparr>status = 500, body = Message ''Failed to update AD user''\<rparr>, s)
                | Some (adUser, s1) \<Rightarrow>
                    (json (Entity adUser),
                     snd (createAuditLog s1 (req_time req)
                       (audit_data req ''user'' (JStr ident) ''update''
                          (Some existing) adUser (Some (getChanges existing data))))))))"

definition delete_ad_users :: "db \<Rightarrow> request \<Rightarrow> string \<Rightarrow> response \<times> db" where
  "delete_ad_users s req ident =
     (if \<not> isAuthenticated req then (unauthorized, s)
      else case getAdUser s (JStr ident) of
        None \<Rightarrow> (\<lparr>status = 404, body = Message ''User not found''\<rparr>, s)
      | Some existing \<Rightarrow>
          (case deleteAdUser s (JStr ident) of
             None \<Rightarrow> (\<lparr>status = 500, body = Message ''Failed to delete AD user''\<rparr>, s)
           | Some (deleted, s1) \<Rightarrow>
               (json (Success deleted),
                snd (createAuditLog s1 (req_time req)
                  (audit_data req ''user'' (JStr ident) ''delete''
                     (Some existing) None None)))))"

subsection \<open>Directory synchronisation\<close>

text \<open>
  What the directory gives \<open>POST /api/ad-users/sync\<close>: no configuration, an error of
  \<open>syncAllUsers\<close> with its message, or the users found.
\<close>

datatype ldap = LdapNotConfigured | LdapError string | LdapUsers "LdapUser list"

definition opt_or_null :: "string option \<Rightarrow> jsval" where
  "opt_or_null a = (if is_set a then JStr (the a) else JNull)"

definition sync_userData :: "LdapUser \<Rightarrow> obj" where
  "sync_userData ldapUser =
     [(''employeeId'',
         JStr (if employeeId ldapUser \<noteq> [] then employeeId ldapUser else sAMAccountName ldapUser)),
      (''displayName'', JStr (displayName ldapUser)),
      (''email'', JStr (email ldapUser)),
      (''department'', opt_or_null (department ldapUser)),
      (''title'', opt_or_null (title ldapUser)),
      (''manager'', opt_or_null (manager ldapUser)),
      (''officeLocation'', opt_or_null (officeLocation ldapUser)),
      (''phone'', opt_or_null (phone ldapUser)),
      (''isActive'', JBool True)]"

text \<open>
  The loop over the directory's users, with the counters and the database so far. A
  statement that throws ends the loop with \<open>None\<close>; what earlier iterations wrote stays.
  The handler then answers 500; the driver's message, which the program appends to
  \<open>Failed to sync AD\<close>, is left out.
\<close>

fun sync_loop :: "nat \<Rightarrow> LdapUser list \<Rightarrow> nat \<times> nat \<times> db \<Rightarrow> (nat \<times> nat) option \<times> db" where
  "sync_loop now [] (created, updated, s) = (Some (created, updated), s)"
| "sync_loop now (ldapUser # rest) (created, updated, s) =
     (case getAdUserByEmail s (JStr (email ldapUser)) of
        Some existingUser \<Rightarrow>
          (case updateAdUser s now (get_prop existingUser ''id'') (sync_userData ldapUser) of
             None \<Rightarrow> (None, s)
           | Some (u, s1) \<Rightarrow> sync_loop now rest (created, updated + 1, s1))
      | None \<Rightarrow>
          (case createAdUser s now (sync_userData ldapUser) of
             None \<Rightarrow> (None, s)
           | Some (u, s1) \<Rightarrow> sync_loop now rest (created + 1, updated, s1)))"

definition post_ad_users_sync :: "db \<Rightarrow> request \<Rightarrow> ldap \<Rightarrow> response \<times> db" where
  "post_ad_users_sync s req directory =
     (if \<not> isAuthenticated req then (unauthorized, s)
      else case directory of
        LdapNotConfigured \<Rightarrow>
          (json (Synced 0 0 0),
           snd (createAuditLog s (req_time req)
             (audit_data req ''system'' (JStr ''ad-sync'') ''sync'' None
                (Some [(''action'', JStr ''AD Sync triggered (LDAP not configured - simulated)'')])
                None)))
      | LdapError m \<Rightarrow> (\<lparr>status = 500, body = Message (''Failed to sync AD: '' @ m)\<rparr>, s)
      | LdapUsers ldapUsers \<Rightarrow>
          (case sync_loop (req_time req) ldapUsers (0, 0, s) of
             (None, s1) \<Rightarrow> (\<lparr>status = 500, body = Message ''Failed to sync AD''\<rparr>, s1)
           | (Some (created, updated), s1) \<Rightarrow>
               (json (Synced (length ldapUsers) created updated),
                snd (createAuditLog s1 (req_time req)
                  (audit_data req ''system'' (JStr ''ad-sync'') ''sync'' None
                     (Some [(''action'', JStr ''AD Sync completed''),
                            (''totalUsers'', JNum (int (length ldapUsers))),
                            (''created'', JNum (int created)),
                            (''updated'', JNum (int updated))])
                     None)))))"

subsection \<open>Audit logs\<close>

text \<open>
  A number is a double: an integer of more than 53 significant bits is rounded to the
  nearest one of 53, a tie going to the even one.
\<close>

fun bit_length :: "nat \<Rightarrow> nat" where
  "bit_length n = (if n = 0 then 0 else Suc (bit_length (n div 2)))"

declare bit_length.simps [simp del]

definition to_double :: "nat \<Rightarrow> nat" where
  "to_double n =
     (let e = bit_length n - 53;
          q = n div 2 ^ e;
          r = n mod 2 ^ e
      in (if 2 * r > 2 ^ e \<or> (2 * r = 2 ^ e \<and> odd q) then q + 1 else q) * 2 ^ e)"

text \<open>
  \<open>parseInt\<close> without a radix: leading white space, a sign, an optional \<open>0x\<close> for base
  sixteen, then the longest run of digits, whose value is rounded to a double; \<open>NaN\<close>
  when there is no digit. \<open>parseInt_scan\<close> reads the sign, the radix and the digits.
\<close>

definition digit_of :: "nat \<Rightarrow> char \<Rightarrow> nat option" where
  "digit_of radix c =
     (let n = (of_char c :: nat);
          d = (if 48 \<le> n \<and> n \<le> 57 then Some (n - 48)
               else if 97 \<le> n \<and> n \<le> 102 then Some (n - 87)
               else if 65 \<le> n \<and> n \<le> 70 then Some (n - 55)
               else None)
      in case d of None \<Rightarrow> None | Some v \<Rightarrow> if v < radix then Some v else None)"

definition digits_value :: "nat \<Rightarrow> string \<Rightarrow> nat" where
  "digits_value radix ds = foldl (\<lambda>a c. a * radix + the (digit_of radix c)) 0 ds"

definition parseInt_scan :: "string \<Rightarrow> bool \<times> nat \<times> string" where
  "parseInt_scan str =
     (let s1 = dropWhile is_space str;
          negative = (s1 \<noteq> [] \<and> hd s1 = CHR ''-'');
          s2 = (if s1 \<noteq> [] \<and> (hd s1 = CHR ''-'' \<or> hd s1 = CHR ''+'') then tl s1 else s1);
          hex = (prefix ''0x'' s2 \<or> prefix ''0X'' s2);
          radix = (if hex then 16 else 10);
          s3 = (if hex then drop 2 s2 else s2)
      in (negative, radix, takeWhile (\<lambda>c. digit_of radix c \<noteq> None) s3))"

definition parseInt :: "string \<Rightarrow> jsval" where
  "parseInt str =
     (case parseInt_scan str of
        (negative, radix, ds) \<Rightarrow>
          if ds = [] then JNaN
          else JNum ((if negative then - 1 else 1) * int (to_double (digits_value radix ds))))"

text \<open>\<open>GET /api/audit-logs\<close>, \<open>query_limit\<close> being \<open>req.query.limit\<close>.\<close>

definition get_audit_logs ::
  "(AuditLog list \<Rightarrow> AuditLog list) \<Rightarrow> db \<Rightarrow> string option \<Rightarrow> response" where
  "get_audit_logs order_by s query_limit =
     (let limit = (if is_set query_limit then parseInt (the query_limit) else JUndefined)
      in case getAuditLogs order_by s limit of
           None \<Rightarrow> \<lparr>status = 500, body = Message ''Failed to fetch audit logs''\<rparr>
         | Some logs \<Rightarrow> json (Logs logs))"

subsection \<open>Import\<close>

text \<open>
  An element of \<open>rows\<close>: \<open>null\<close> or \<open>undefined\<close>, on which reading a property throws, or
  a value with properties (a primitive has none of those the handler reads).
\<close>

datatype import_row = NullRow | Row obj


definition import_assetData :: "obj \<Rightarrow> jsval \<Rightarrow> obj" where
  "import_assetData row categoryId =
     [(''assetTag'', get_prop row ''assetTag''),
      (''name'', get_prop row ''name''),
      (''description'', js_or (get_prop row ''description'') JNull),
      (''categoryId'', js_or categoryId JNull),
      (''status'',
         (if truthy (get_prop row ''status'') \<and> get_prop row ''status'' \<in> set (map JStr ASSET_STATUSES)
          then get_prop row ''status'' else JStr ''active'')),
      (''manufacturer'', js_or (get_prop row ''manufacturer'') JNull),
      (''model'', js_or (get_prop row ''model'') JNull),
      (''serialNumber'', js_or (get_prop row ''serialNumber'') JNull),
      (''location'', js_or (get_prop row ''location'') JNull),
      (''purchaseCost'', js_or (get_prop row ''purchaseCost'') JNull),
      (''notes'', js_or (get_prop row ''notes'') JNull)]"

text \<open>
  One turn of the loop: whether the row was imported, and the database after it. Every
  exception inside the turn is caught and counts the row as failed.
\<close>

definition import_row :: "request \<Rightarrow> jsval \<Rightarrow> db \<Rightarrow> import_row \<Rightarrow> bool \<times> db" where
  "import_row req categoryId s r =
     (case r of
        NullRow \<Rightarrow> (False, s)
      | Row row \<Rightarrow>
          if \<not> truthy (get_prop row ''assetTag'') \<or> \<not> truthy (get_prop row ''name'')
          then (False, s)
          else (case getAssetByTag s (get_prop row ''assetTag'') of
                  Some existingAsset \<Rightarrow> (False, s)
                | None \<Rightarrow>
                    (case createAsset s (req_time req) (import_assetData row categoryId) of
                       None \<Rightarrow> (False, s)
                     | Some (asset, s1) \<Rightarrow>
                         (True,
                          snd (createAuditLog s1 (req_time req)
                            (audit_data req ''asset'' (get_prop asset ''id'') ''create'' None
                               (Some (set_prop asset ''source'' (JStr ''import''))) None))))))"

fun import_loop ::
  "request \<Rightarrow> jsval \<Rightarrow> import_row list \<Rightarrow> nat \<times> nat \<times> db \<Rightarrow> nat \<times> nat \<times> db" where
  "import_loop req categoryId [] (success, failed, s) = (success, failed, s)"
| "import_loop req categoryId (r # rows) (success, failed, s) =
     (case import_row req categoryId s r of
        (True, s1) \<Rightarrow> import_loop req categoryId rows (success + 1, failed, s1)
      | (False, s1) \<Rightarrow> import_loop req categoryId rows (success, failed + 1, s1))"

text \<open>\<open>rows\<close> is \<open>None\<close> when the body has no array under that name.\<close>

definition post_import :: "db \<Rightarrow> request \<Rightarrow> import_row list option \<Rightarrow> jsval \<Rightarrow> response \<times> db" where
  "post_import s req rows categoryId =
     (if \<not> isAuthenticated req then (unauthorized, s)
      else case rows of
        None \<Rightarrow> (\<lparr>status = 400, body = Message ''Invalid import data''\<rparr>, s)
      | Some rs \<Rightarrow>
          (case import_loop req categoryId rs (0, 0, s) of
             (success, failed, s1) \<Rightarrow>
               (json (Imported success failed (length rs)),
                snd (createAuditLog s1 (req_time req)
                  (audit_data req ''system'' (JStr ''import'') ''import'' None
                     (Some [(''totalRows'', JNum (int (length rs))),
                            (''success'', JNum (int success)),
                            (''failed'', JNum (int failed))])
                     None)))))"

subsection \<open>Authentication\<close>

text \<open>\<open>const { password, ...safeUser } = user\<close>\<close>

definition sanitizeUser :: "obj \<Rightarrow> obj" where
  "sanitizeUser usr = filter (\<lambda>(k, v). k \<noteq> ''password'') usr"

text \<open>
  What the server takes from outside the given sources: the columns of \<open>users\<close>,
  \<open>bcrypt\<close>'s \<open>hash\<close> and \<open>compare\<close>, and the ordering the database applies for
  \<open>ORDER BY created_at DESC\<close>.
\<close>

record server_env =
  users_columns :: "column list"
  bcrypt_hash :: "string \<Rightarrow> string"
  bcrypt_compare :: "string \<Rightarrow> jsval \<Rightarrow> bool"
  order_by_desc_createdAt :: "AuditLog list \<Rightarrow> AuditLog list"

definition registerUser ::
  "server_env \<Rightarrow> db \<Rightarrow> nat \<Rightarrow> string \<Rightarrow> string \<Rightarrow> string \<Rightarrow> string option \<Rightarrow> (obj \<times> db) option" where
  "registerUser env s now mail password firstName lastName =
     (let hashedPassword = bcrypt_hash env password;
          usr = new_row (users_columns env) now (gen_random_uuid s)
                  [(''email'', JStr (toLowerCase mail)),
                   (''password'', JStr hashedPassword),
                   (''firstName'', JStr firstName),
                   (''lastName'', opt_or_null lastName)];
          s' = s\<lparr>users := users s @ [usr], uuids := uuids s + 1\<rparr>
      in if constraints s' then Some (sanitizeUser usr, s') else None)"

definition getUserByEmail :: "db \<Rightarrow> string \<Rightarrow> obj option" where
  "getUserByEmail s mail = find (sql_eq ''email'' (JStr (toLowerCase mail))) (users s)"

definition getUser :: "db \<Rightarrow> jsval \<Rightarrow> obj option" where
  "getUser s ident = map_option sanitizeUser (find (sql_eq ''id'' ident) (users s))"

text \<open>\<open>passport.deserializeUser\<close>: the session's user, \<open>None\<close> for \<open>false\<close>.\<close>

definition deserializeUser :: "db \<Rightarrow> jsval \<Rightarrow> obj option" where
  "deserializeUser s ident =
     (case find (sql_eq ''id'' ident) (users s) of
        Some usr \<Rightarrow> Some (sanitizeUser usr)
      | None \<Rightarrow> None)"

text \<open>The verify callback of the local strategy: \<open>Inl m\<close> is \<open>done(null, false, {message: m})\<close>.\<close>

definition local_strategy :: "server_env \<Rightarrow> db \<Rightarrow> string \<Rightarrow> string \<Rightarrow> string + obj" where
  "local_strategy env s mail password =
     (case find (sql_eq ''email'' (JStr (toLowerCase mail))) (users s) of
        None \<Rightarrow> Inl ''Invalid email or password''
      | Some usr \<Rightarrow>
          if \<not> truthy (get_prop usr ''isActive'') then Inl ''Account is disabled''
          else if \<not> bcrypt_compare env password (get_prop usr ''password'')
          then Inl ''Invalid email or password''
          else Inr (sanitizeUser usr))"

record RegisterData =
  reg_email :: string
  reg_password :: string
  reg_firstName :: string
  reg_lastName :: "string option"

text \<open>\<open>login_error\<close>: whether \<open>req.login\<close> reports an error to its callback.\<close>

definition post_auth_register ::
  "server_env \<Rightarrow> db \<Rightarrow> nat \<Rightarrow> string + RegisterData \<Rightarrow> bool \<Rightarrow> response \<times> db" where
  "post_auth_register env s now parsed login_error =
     (case parsed of
        Inl m \<Rightarrow> (\<lparr>status = 400, body = Message m\<rparr>, s)
      | Inr data \<Rightarrow>
          (case getUserByEmail s (reg_email data) of
             Some existingUser \<Rightarrow>
               (\<lparr>status = 400, body = Message ''Email already registered''\<rparr>, s)
           | None \<Rightarrow>
               (case registerUser env s now (reg_email data) (reg_password data)
                       (reg_firstName data) (reg_lastName data) of
                  None \<Rightarrow> (\<lparr>status = 500, body = Message ''Registration failed''\<rparr>, s)
                | Some (usr, s1) \<Rightarrow>
                    if login_error
                    then (\<lparr>status = 500, body = Message ''Failed to log in after registration''\<rparr>, s1)
                    else (\<lparr>status = 201, body = Entity (Some usr)\<rparr>, s1))))"

text \<open>
  \<open>POST /api/auth/login\<close>, the body given by what \<open>loginSchema.parse\<close> makes of it and by
  the credentials the local strategy reads from it; the strategy itself fails when
  either is empty.
\<close>

definition post_auth_login ::
  "server_env \<Rightarrow> db \<Rightarrow> string + string \<times> string \<Rightarrow> bool \<Rightarrow> response" where
  "post_auth_login env s parsed login_error =
     (case parsed of
        Inl m \<Rightarrow> \<lparr>status = 400, body = Message m\<rparr>
      | Inr (mail, password) \<Rightarrow>
          if mail = [] \<or> password = [] then \<lparr>status = 401, body = Message ''Missing credentials''\<rparr>
          else (case local_strategy env s mail password of
                  Inl m \<Rightarrow> \<lparr>status = 401, body = Message m\<rparr>
                | Inr usr \<Rightarrow>
                    if login_error then \<lparr>status = 500, body = Message ''Login failed''\<rparr>
                    else json (Entity (Some usr))))"

definition get_auth_user :: "db \<Rightarrow> request \<Rightarrow> response" where
  "get_auth_user s req =
     (case req_user req of
        None \<Rightarrow> unauthorized
      | Some u \<Rightarrow> json (Entity (getUser s (JStr (su_id u)))))"

section \<open>The server as a transition system\<close>

text \<open>
  The calls that write to the database, and the reading calls the theorems below speak
  about; the remaining routes only read.
\<close>

datatype api_call =
    PostCategories request "string + obj"
  | PatchCategories request string "string + obj"
  | DeleteCategories request string
  | PostAssets request "string + obj"
  | PatchAssets request string "string + obj"
  | DeleteAssets request string
  | PostAdUsers request "string + obj"
  | PatchAdUsers request string "string + obj"
  | DeleteAdUsers request string
  | PostAdUsersSync request ldap
  | PostImport request "import_row list option" jsval
  | GetAuditLogs "string option"
  | PostAuthRegister nat "string + RegisterData" bool
  | PostAuthLogin "string + string \<times> string" bool
  | GetAuthUser request

fun handle :: "server_env \<Rightarrow> db \<Rightarrow> api_call \<Rightarrow> response \<times> db" where
  "handle env s (PostCategories req parsed) = post_categories s req parsed"
| "handle env s (PatchCategories req ident parsed) = patch_categories s req ident parsed"
| "handle env s (DeleteCategories req ident) = delete_categories s req ident"
| "handle env s (PostAssets req parsed) = post_assets s req parsed"
| "handle env s (PatchAssets req ident parsed) = patch_assets s req ident parsed"
| "handle env s (DeleteAssets req ident) = delete_assets s req ident"
| "handle env s (PostAdUsers req parsed) = post_ad_users s req parsed"
| "handle env s (PatchAdUsers req ident parsed) = patch_ad_users s req ident parsed"
| "handle env s (DeleteAdUsers req ident) = delete_ad_users s req ident"
| "handle env s (PostAdUsersSync req directory) = post_ad_users_sync s req directory"
| "handle env s (PostImport req rows categoryId) = post_import s req rows categoryId"
| "handle env s (GetAuditLogs query_limit) =
     (get_audit_logs (order_by_desc_createdAt env) s query_limit, s)"
| "handle env s (PostAuthRegister now parsed login_error) =
     post_auth_register env s now parsed login_error"
| "handle env s (PostAuthLogin parsed login_error) = (post_auth_login env s parsed login_error, s)"
| "handle env s (GetAuthUser req) = (get_auth_user s req, s)"

text \<open>The database after a sequence of calls.\<close>

fun run :: "server_env \<Rightarrow> db \<Rightarrow> api_call list \<Rightarrow> db" where
  "run env s [] = s"
| "run env s (c # cs) = run env (snd (handle env s c)) cs"

section \<open>Example data\<close>



text \<open>
  An ordering a database may apply: newest first, and rows of equal creation time in the
  order of their insertion.
\<close>

definition insertion_order_desc :: "AuditLog list \<Rightarrow> AuditLog list" where
  "insertion_order_desc logs = rev (sort_key createdAt (rev logs))"

definition example_env :: server_env where
  "example_env =
     \<lparr>users_columns =
        [(''id'', Text, GenRandomUuid), (''email'', Text, NoDefault), (''password'', Text, NoDefault),
         (''firstName'', Text, NoDefault), (''lastName'', Text, NoDefault),
         (''isActive'', Boolean, DefaultValue (JBool True)), (''createdAt'', Timestamp, DefaultNow)],
      bcrypt_hash = (\<lambda>p. ''$2a$12$'' @ rev p),
      bcrypt_compare = (\<lambda>p h. h = JStr (''$2a$12$'' @ rev p)),
      order_by_desc_createdAt = insertion_order_desc\<rparr>"

definition example_registration :: RegisterData where
  "example_registration =
     \<lparr>reg_email = ''Ann@Corp.example'', reg_password = ''secret'', reg_firstName = ''Ann'',
      reg_lastName = None\<rparr>"

definition example_user_row :: obj where
  "example_user_row =
     [(''id'', JStr ''uuid-''), (''email'', JStr ''ann@corp.example''),
      (''password'', JStr ''$2a$12$terces''), (''firstName'', JStr ''Ann''),
      (''lastName'', JNull), (''isActive'', JBool True), (''createdAt'', Date_at 3)]"

definition example_session :: request where
  "example_session =
     \<lparr>req_user = Some \<lparr>su_id = ''uuid-'', su_email = Some ''ann@corp.example'',
                         su_firstName = Some ''Ann'', su_lastName = None\<rparr>,
      req_ip = Some ''10.0.0.7'', remoteAddress = None, user_agent = None, req_time = 4\<rparr>"

definition example_db :: db where
  "example_db =
     run example_env empty_db
       [PostCategories example_session (Inr [(''name'', JStr ''Hardware'')]),
        PostAdUsers example_session
          (Inr [(''displayName'', JStr ''Bob''), (''email'', JStr ''bob@corp.example'')]),
        PostAssets example_session (Inr [(''assetTag'', JStr ''''), (''name'', JStr ''Untagged'')]),
        PostAssets example_session (Inr [(''assetTag'', JStr ''T1''), (''name'', JStr ''Laptop'')])]"

definition example_directory :: "LdapUser list" where
  "example_directory =
     [\<lparr>dn = ''CN=Ann,DC=corp'', employeeId = ''7'', displayName = ''Ann'', email = ''ann@corp.example'',
       sAMAccountName = ''ann'', department = Some ''IT'', title = None, manager = None,
       officeLocation = None, phone = None, memberOf = []\<rparr>,
      \<lparr>dn = ''CN=Bob,DC=corp'', employeeId = '''', displayName = ''Bob'', email = ''bob@corp.example'',
       sAMAccountName = ''bob'', department = None, title = None, manager = None,
       officeLocation = None, phone = None, memberOf = []\<rparr>]"

definition example_rows :: "import_row list" where
  "example_rows =
     [Row [(''assetTag'', JStr ''T2''), (''name'', JStr ''Monitor'')],
      Row [(''assetTag'', JStr ''T2''), (''name'', JStr ''Second monitor'')],
      Row [(''assetTag'', JStr ''T3'')],
      NullRow,
      Row [(''assetTag'', JStr ''T4''), (''name'', JStr ''Printer''), (''status'', JStr ''retired'')],
      Row [(''assetTag'', JStr ''T5''), (''name'', JStr ''Phone''), (''status'', JStr ''broken'')]]"



section \<open>Facts about strings\<close>



section \<open>The audit diff\<close>

lemma getChanges_loop_eq:
  "getChanges_loop old new keys acc =
     acc @ map (\<lambda>k. \<lparr>field = k, oldValue = get_prop old k, newValue = get_prop new k\<rparr>)
       (filter (\<lambda>k. strict_neq (get_prop old k) (get_prop new k)) keys)"
  by (induction keys arbitrary: acc) simp_all

text \<open>
  Claim C2. \<open>getChanges\<close> compares field by field and shallowly: its result is, in the
  iteration order of the keys of \<open>newData\<close>, one entry \<open>{field, oldValue, newValue}\<close> for
  each key whose value in \<open>newData\<close> is \<open>!==\<close> the value \<open>oldData[key]\<close>, which is
  \<open>oldData\<close>'s own property, else the one it inherits, else \<open>undefined\<close>. The comparison
  is shallow: primitives are compared by value and objects (arrays, dates, nested
  records) by reference. A key is reported at most once, every reported key is a key of
  \<open>newData\<close> (a key that only \<open>oldData\<close> has is never reported), and no entry has
  strictly equal old and new values.
\<close>

theorem getChanges_shallow_diff:
  "getChanges old new =
     map (\<lambda>k. \<lparr>field = k, oldValue = get_prop old k, newValue = get_prop new k\<rparr>)
       (filter (\<lambda>k. strict_neq (get_prop old k) (get_prop new k)) (Object_keys new))
   \<and> (wf_obj new \<longrightarrow> distinct (map field (getChanges old new)))
   \<and> (\<forall>c \<in> set (getChanges old new).
         field c \<in> set (Object_keys new) \<and> strict_neq (oldValue c) (newValue c))"
proof -
  let ?mk = "\<lambda>k. \<lparr>field = k, oldValue = get_prop old k, newValue = get_prop new k\<rparr>"
  let ?ks = "filter (\<lambda>k. strict_neq (get_prop old k) (get_prop new k)) (Object_keys new)"
  have eq: "getChanges old new = map ?mk ?ks"
    by (simp add: getChanges_def getChanges_loop_eq)
  have fields: "map field (getChanges old new) = ?ks"
    by (simp add: eq comp_def)
  have "wf_obj new \<longrightarrow> distinct (map field (getChanges old new))"
    unfolding fields by (simp add: wf_obj_def)
  moreover have "\<forall>c \<in> set (getChanges old new).
         field c \<in> set (Object_keys new) \<and> strict_neq (oldValue c) (newValue c)"
    unfolding eq by auto
  ultimately show ?thesis using eq by blast
qed

theorem getChanges_shallow_diff_witness:
  "getChanges [(''name'', JStr ''Laptop''), (''status'', JStr ''active''), (''notes'', JNull)]
              [(''status'', JStr ''retired''), (''name'', JStr ''Laptop''), (''location'', JStr ''HQ'')]
     = [\<lparr>field = ''status'', oldValue = JStr ''active'', newValue = JStr ''retired''\<rparr>,
        \<lparr>field = ''location'', oldValue = JUndefined, newValue = JStr ''HQ''\<rparr>]
   \<and> wf_obj [(''status'', JStr ''retired''), (''name'', JStr ''Laptop''), (''location'', JStr ''HQ'')]
   \<and> distinct (map field
        (getChanges [(''name'', JStr ''Laptop''), (''status'', JStr ''active''), (''notes'', JNull)]
              [(''status'', JStr ''retired''), (''name'', JStr ''Laptop''), (''location'', JStr ''HQ'')]))
   \<and> getChanges [(''tags'', JObject (Received 5)), (''purchaseDate'', JObject (Stored 6))]
                 [(''tags'', JObject (Received 5)), (''purchaseDate'', JObject (Received 6)),
                  (''constructor'', JNum 1)]
     = [\<lparr>field = ''purchaseDate'', oldValue = JObject (Stored 6), newValue = JObject (Received 6)\<rparr>,
        \<lparr>field = ''constructor'', oldValue = JBuiltin ''constructor'', newValue = JNum 1\<rparr>]"
  using getChanges_shallow_diff
    [of "[(''name'', JStr ''Laptop''), (''status'', JStr ''active''), (''notes'', JNull)]"
        "[(''status'', JStr ''retired''), (''name'', JStr ''Laptop''), (''location'', JStr ''HQ'')]"]
    getChanges_shallow_diff
    [of "[(''tags'', JObject (Received 5)), (''purchaseDate'', JObject (Stored 6))]"
        "[(''tags'', JObject (Received 5)), (''purchaseDate'', JObject (Received 6)),
          (''constructor'', JNum 1)]"]
  by (simp add: wf_obj_def Object_keys_def get_prop_def strict_neq_def Object_prototype_def)

section \<open>The column-mapping heuristic\<close>







section \<open>Role derivation\<close>



section \<open>Listing the audit logs\<close>







section \<open>Authentication responses\<close>

lemma map_of_sanitizeUser:
  "map_of (sanitizeUser usr) k = (if k = ''password'' then None else map_of usr k)"
  unfolding sanitizeUser_def by (induction usr) auto

lemma keys_sanitizeUser:
  "Object_keys (sanitizeUser usr) = filter (\<lambda>k. k \<noteq> ''password'') (Object_keys usr)"
  unfolding sanitizeUser_def Object_keys_def by (induction usr) auto

lemma find_in_set: "find P xs = Some x \<Longrightarrow> x \<in> set xs"
  by (auto simp: find_Some_iff)

lemma registerUser_sanitized:
  "registerUser env s now m p f l = Some (ob, s') \<Longrightarrow> \<exists>u \<in> set (users s'). ob = sanitizeUser u"
  by (auto simp: registerUser_def Let_def split: if_splits)

lemma getUser_sanitized:
  "getUser s ident = Some ob \<Longrightarrow> \<exists>u \<in> set (users s). ob = sanitizeUser u"
  by (auto simp: getUser_def dest: find_in_set)

lemma deserializeUser_sanitized:
  "deserializeUser s ident = Some ob \<Longrightarrow> \<exists>u \<in> set (users s). ob = sanitizeUser u"
  by (auto simp: deserializeUser_def split: option.splits dest: find_in_set)

lemma local_strategy_sanitized:
  "local_strategy env s m p = Inr ob \<Longrightarrow> \<exists>u \<in> set (users s). ob = sanitizeUser u"
  by (auto simp: local_strategy_def split: option.splits if_splits dest: find_in_set)

lemma register_route_sanitized:
  assumes "body (fst (post_auth_register env s now parsed le)) = Entity (Some ob)"
  shows "\<exists>u \<in> set (users (snd (post_auth_register env s now parsed le))). ob = sanitizeUser u"
proof (cases parsed)
  case (Inl m)
  with assms show ?thesis by (simp add: post_auth_register_def)
next
  case (Inr d)
  show ?thesis
  proof (cases "getUserByEmail s (reg_email d)")
    case (Some e)
    with assms Inr show ?thesis by (simp add: post_auth_register_def)
  next
    case None
    show ?thesis
    proof (cases "registerUser env s now (reg_email d) (reg_password d) (reg_firstName d) (reg_lastName d)")
      case N: None
      with assms Inr None show ?thesis by (simp add: post_auth_register_def)
    next
      case (Some r)
      obtain usr s1 where r: "r = (usr, s1)" by (cases r)
      have "\<exists>u \<in> set (users s1). usr = sanitizeUser u"
        using Some r registerUser_sanitized by blast
      with assms Inr None Some r show ?thesis
        by (simp add: post_auth_register_def split: if_splits)
    qed
  qed
qed

lemma login_route_sanitized:
  assumes "body (post_auth_login env s parsed le) = Entity (Some ob)"
  shows "\<exists>u \<in> set (users s). ob = sanitizeUser u"
proof (cases parsed)
  case (Inl m)
  with assms show ?thesis by (simp add: post_auth_login_def)
next
  case (Inr cred)
  obtain mail password where cred: "cred = (mail, password)" by (cases cred)
  show ?thesis
  proof (cases "local_strategy env s mail password")
    case L: (Inl m)
    with assms Inr cred show ?thesis
      by (simp add: post_auth_login_def split: if_splits)
  next
    case R: (Inr usr)
    then have "\<exists>u \<in> set (users s). usr = sanitizeUser u"
      by (rule local_strategy_sanitized)
    with assms Inr cred R show ?thesis
      by (simp add: post_auth_login_def json_def split: if_splits)
  qed
qed

lemma auth_user_route_sanitized:
  assumes "body (get_auth_user s req) = Entity (Some ob)"
  shows "\<exists>u \<in> set (users s). ob = sanitizeUser u"
proof (cases "req_user req")
  case None
  with assms show ?thesis by (simp add: get_auth_user_def unauthorized_def)
next
  case (Some u)
  with assms have "getUser s (JStr (su_id u)) = Some ob"
    by (simp add: get_auth_user_def json_def)
  then show ?thesis by (rule getUser_sanitized)
qed

text \<open>
  Claim C10. \<open>sanitizeUser\<close> returns the user record without its \<open>password\<close> property and
  with every other property unchanged and in place. Every user object that
  \<open>registerUser\<close>, \<open>getUser\<close> or the session's \<open>deserializeUser\<close> returns, and every user
  object in a response of the register, login and current-user endpoints, is
  \<open>sanitizeUser\<close> of a row of \<open>users\<close>; so none of them carries the password hash.
\<close>

theorem auth_responses_sanitized:
  "get_prop (sanitizeUser usr) ''password'' = JUndefined
   \<and> ''password'' \<notin> set (Object_keys (sanitizeUser usr))
   \<and> Object_keys (sanitizeUser usr) = filter (\<lambda>k. k \<noteq> ''password'') (Object_keys usr)
   \<and> (\<forall>k. k \<noteq> ''password'' \<longrightarrow> get_prop (sanitizeUser usr) k = get_prop usr k)
   \<and> (\<forall>ob s'. registerUser env s now m p f l = Some (ob, s') \<longrightarrow>
         (\<exists>u \<in> set (users s'). ob = sanitizeUser u))
   \<and> (\<forall>ob. getUser s ident = Some ob \<longrightarrow> (\<exists>u \<in> set (users s). ob = sanitizeUser u))
   \<and> (\<forall>ob. deserializeUser s ident = Some ob \<longrightarrow> (\<exists>u \<in> set (users s). ob = sanitizeUser u))
   \<and> (\<forall>ob. body (fst (post_auth_register env s now parsed le)) = Entity (Some ob) \<longrightarrow>
         (\<exists>u \<in> set (users (snd (post_auth_register env s now parsed le))). ob = sanitizeUser u))
   \<and> (\<forall>ob. body (post_auth_login env s credentials le) = Entity (Some ob) \<longrightarrow>
         (\<exists>u \<in> set (users s). ob = sanitizeUser u))
   \<and> (\<forall>ob. body (get_auth_user s req) = Entity (Some ob) \<longrightarrow>
         (\<exists>u \<in> set (users s). ob = sanitizeUser u))"
proof -
  have a: "get_prop (sanitizeUser usr) ''password'' = JUndefined"
    by (simp add: get_prop_def map_of_sanitizeUser Object_prototype_def)
  have b: "''password'' \<notin> set (Object_keys (sanitizeUser usr))"
    by (simp add: keys_sanitizeUser)
  have c: "\<forall>k. k \<noteq> ''password'' \<longrightarrow> get_prop (sanitizeUser usr) k = get_prop usr k"
    by (simp add: get_prop_def map_of_sanitizeUser)
  show ?thesis
  proof (intro conjI allI impI)
    show "get_prop (sanitizeUser usr) ''password'' = JUndefined" by (rule a)
    show "''password'' \<notin> set (Object_keys (sanitizeUser usr))" by (rule b)
    show "Object_keys (sanitizeUser usr) = filter (\<lambda>k. k \<noteq> ''password'') (Object_keys usr)"
      by (rule keys_sanitizeUser)
    show "get_prop (sanitizeUser usr) k = get_prop usr k" if "k \<noteq> ''password''" for k
      using c that by blast
    show "\<exists>u \<in> set (users s'). ob = sanitizeUser u"
      if "registerUser env s now m p f l = Some (ob, s')" for ob s'
      using that by (rule registerUser_sanitized)
    show "\<exists>u \<in> set (users s). ob = sanitizeUser u" if "getUser s ident = Some ob" for ob
      using that by (rule getUser_sanitized)
    show "\<exists>u \<in> set (users s). ob = sanitizeUser u" if "deserializeUser s ident = Some ob" for ob
      using that by (rule deserializeUser_sanitized)
    show "\<exists>u \<in> set (users (snd (post_auth_register env s now parsed le))). ob = sanitizeUser u"
      if "body (fst (post_auth_register env s now parsed le)) = Entity (Some ob)" for ob
      using that by (rule register_route_sanitized)
    show "\<exists>u \<in> set (users s). ob = sanitizeUser u"
      if "body (post_auth_login env s credentials le) = Entity (Some ob)" for ob
      using that by (rule login_route_sanitized)
    show "\<exists>u \<in> set (users s). ob = sanitizeUser u"
      if "body (get_auth_user s req) = Entity (Some ob)" for ob
      using that by (rule auth_user_route_sanitized)
  qed
qed


theorem auth_responses_sanitized_witness:
  "post_auth_register example_env empty_db 3 (Inr example_registration) False =
     (\<lparr>status = 201, body = Entity (Some (sanitizeUser example_user_row))\<rparr>,
      empty_db\<lparr>users := [example_user_row], uuids := 1\<rparr>)
   \<and> get_prop example_user_row ''password'' = JStr ''$2a$12$terces''
   \<and> get_prop (sanitizeUser example_user_row) ''password'' = JUndefined
   \<and> get_prop (sanitizeUser example_user_row) ''email'' = JStr ''ann@corp.example''
   \<and> post_auth_login example_env (empty_db\<lparr>users := [example_user_row], uuids := 1\<rparr>)
         (Inr (''ANN@corp.example'', ''secret'')) False =
       json (Entity (Some (sanitizeUser example_user_row)))
   \<and> get_auth_user (empty_db\<lparr>users := [example_user_row], uuids := 1\<rparr>) example_session =
       json (Entity (Some (sanitizeUser example_user_row)))"
proof -
  have r: "post_auth_register example_env empty_db 3 (Inr example_registration) False =
     (\<lparr>status = 201, body = Entity (Some (sanitizeUser example_user_row))\<rparr>,
      empty_db\<lparr>users := [example_user_row], uuids := 1\<rparr>)"
    by code_simp
  have l: "post_auth_login example_env (empty_db\<lparr>users := [example_user_row], uuids := 1\<rparr>)
         (Inr (''ANN@corp.example'', ''secret'')) False =
       json (Entity (Some (sanitizeUser example_user_row)))"
    by code_simp
  have g: "get_auth_user (empty_db\<lparr>users := [example_user_row], uuids := 1\<rparr>) example_session =
       json (Entity (Some (sanitizeUser example_user_row)))"
    by code_simp
  have p: "get_prop example_user_row ''password'' = JStr ''$2a$12$terces''"
    by (simp add: example_user_row_def get_prop_def)
  have e: "get_prop example_user_row ''email'' = JStr ''ann@corp.example''"
    by (simp add: example_user_row_def get_prop_def)
  show ?thesis
    using auth_responses_sanitized
      [where usr = example_user_row and env = example_env and s = empty_db and now = 3
         and parsed = "Inr example_registration" and le = False]
      r l g p e
    by simp
qed

section \<open>The storage layer\<close>

lemma uuid_of_inject: "(uuid_of m = uuid_of n) = (m = n)"
proof
  assume "uuid_of m = uuid_of n"
  then have "length (uuid_of m) = length (uuid_of n)" by simp
  then show "m = n" by (simp add: uuid_of_def)
qed simp

lemma createAuditLog_fields:
  "entityType (fst (createAuditLog s now d)) = entityType d"
  "entityId (fst (createAuditLog s now d)) = entityId d"
  "action (fst (createAuditLog s now d)) = action d"
  "previousData (fst (createAuditLog s now d)) = previousData d"
  "newData (fst (createAuditLog s now d)) = newData d"
  "changes (fst (createAuditLog s now d)) = changes d"
  "createdAt (fst (createAuditLog s now d)) = now"
  "logId (fst (createAuditLog s now d)) = gen_random_uuid s"
  by (simp_all add: createAuditLog_def Let_def InsertAuditLog.defs AuditLog.defs)

lemma createAuditLog_tables:
  "auditLogs (snd (createAuditLog s now d)) = auditLogs s @ [fst (createAuditLog s now d)]"
  "categories (snd (createAuditLog s now d)) = categories s"
  "assets (snd (createAuditLog s now d)) = assets s"
  "adUsers (snd (createAuditLog s now d)) = adUsers s"
  "users (snd (createAuditLog s now d)) = users s"
  "uuids (snd (createAuditLog s now d)) = uuids s + 1"
  by (simp_all add: createAuditLog_def Let_def)

lemma audit_data_fields:
  "entityType (audit_data req etype eid act prev new chg) = etype"
  "entityId (audit_data req etype eid act prev new chg) = eid"
  "action (audit_data req etype eid act prev new chg) = act"
  "previousData (audit_data req etype eid act prev new chg) = prev"
  "newData (audit_data req etype eid act prev new chg) = new"
  "changes (audit_data req etype eid act prev new chg) = chg"
  by (simp_all add: audit_data_def)

lemma find_SomeD: "find P xs = Some x \<Longrightarrow> x \<in> set xs \<and> P x"
  by (auto simp: find_Some_iff)

lemma find_filter_None: "find P (filter (\<lambda>r. \<not> P r) xs) = None"
  by (simp add: find_None_iff)

lemma constraints_createAuditLog:
  "constraints (snd (createAuditLog s now d)) = constraints s"
  by (simp add: constraints_def createAuditLog_tables)

lemma createCategory_Some:
  "createCategory s now d = Some (c, s1) \<Longrightarrow>
     s1 = s\<lparr>categories := categories s @ [c], uuids := uuids s + 1\<rparr> \<and> constraints s1
     \<and> c = new_row categories_columns now (gen_random_uuid s) d"
  by (auto simp: createCategory_def Let_def split: if_splits)

lemma updateCategory_Some:
  "updateCategory s now i d = Some (c, s1) \<Longrightarrow>
     s1 = s\<lparr>categories :=
            map (\<lambda>r. if sql_eq ''id'' i r
                     then set_values categories_columns r (set_prop d ''updatedAt'' (Date_at now)) else r)
              (categories s)\<rparr>
     \<and> c = map_option (\<lambda>r. set_values categories_columns r (set_prop d ''updatedAt'' (Date_at now)))
           (getCategory s i)
     \<and> constraints s1"
  by (auto simp: updateCategory_def getCategory_def Let_def split: if_splits)

lemma deleteCategory_Some:
  "deleteCategory s i = Some (b, s1) \<Longrightarrow>
     s1 = s\<lparr>categories := filter (\<lambda>r. \<not> sql_eq ''id'' i r) (categories s)\<rparr> \<and> constraints s1"
  by (auto simp: deleteCategory_def Let_def split: if_splits)

lemma createAsset_Some:
  "createAsset s now d = Some (c, s1) \<Longrightarrow>
     s1 = s\<lparr>assets := assets s @ [c], uuids := uuids s + 1\<rparr> \<and> constraints s1
     \<and> c = new_row assets_columns now (gen_random_uuid s) d"
  by (auto simp: createAsset_def Let_def split: if_splits)

lemma updateAsset_Some:
  "updateAsset s now i d = Some (c, s1) \<Longrightarrow>
     s1 = s\<lparr>assets :=
            map (\<lambda>r. if sql_eq ''id'' i r
                     then set_values assets_columns r (set_prop d ''updatedAt'' (Date_at now)) else r)
              (assets s)\<rparr>
     \<and> c = map_option (\<lambda>r. set_values assets_columns r (set_prop d ''updatedAt'' (Date_at now)))
           (getAsset s i)
     \<and> constraints s1"
  by (auto simp: updateAsset_def getAsset_def Let_def split: if_splits)

lemma deleteAsset_Some:
  "deleteAsset s i = Some (b, s1) \<Longrightarrow>
     s1 = s\<lparr>assets := filter (\<lambda>r. \<not> sql_eq ''id'' i r) (assets s)\<rparr> \<and> constraints s1"
  by (auto simp: deleteAsset_def Let_def split: if_splits)

lemma createAdUser_Some:
  "createAdUser s now d = Some (c, s1) \<Longrightarrow>
     s1 = s\<lparr>adUsers := adUsers s @ [c], uuids := uuids s + 1\<rparr> \<and> constraints s1
     \<and> c = new_row adUsers_columns now (gen_random_uuid s) d"
  by (auto simp: createAdUser_def Let_def split: if_splits)

lemma updateAdUser_Some:
  "updateAdUser s now i d = Some (c, s1) \<Longrightarrow>
     s1 = s\<lparr>adUsers :=
            map (\<lambda>r. if sql_eq ''id'' i r
                     then set_values adUsers_columns r (set_prop d ''updatedAt'' (Date_at now)) else r)
              (adUsers s)\<rparr>
     \<and> c = map_option (\<lambda>r. set_values adUsers_columns r (set_prop d ''updatedAt'' (Date_at now)))
           (getAdUser s i)
     \<and> constraints s1"
  by (auto simp: updateAdUser_def getAdUser_def Let_def split: if_splits)

lemma deleteAdUser_Some:
  "deleteAdUser s i = Some (b, s1) \<Longrightarrow>
     s1 = s\<lparr>adUsers := filter (\<lambda>r. \<not> sql_eq ''id'' i r) (adUsers s)\<rparr> \<and> constraints s1"
  by (auto simp: deleteAdUser_def Let_def split: if_splits)

section \<open>The create, update and delete handlers\<close>

lemma post_categories_error:
  "status (fst (post_categories s req parsed)) \<noteq> 201 \<Longrightarrow> snd (post_categories s req parsed) = s"
  by (auto simp: post_categories_def unauthorized_def
           split: sum.splits option.splits prod.splits if_splits)

lemma patch_categories_error:
  "status (fst (patch_categories s req ident parsed)) \<noteq> 200 \<Longrightarrow>
     snd (patch_categories s req ident parsed) = s"
  by (auto simp: patch_categories_def unauthorized_def json_def
           split: sum.splits option.splits prod.splits if_splits)

lemma delete_categories_error:
  "status (fst (delete_categories s req ident)) \<noteq> 200 \<Longrightarrow>
     snd (delete_categories s req ident) = s"
  by (auto simp: delete_categories_def unauthorized_def json_def
           split: option.splits prod.splits if_splits)

lemma post_assets_error:
  "status (fst (post_assets s req parsed)) \<noteq> 201 \<Longrightarrow> snd (post_assets s req parsed) = s"
  by (auto simp: post_assets_def unauthorized_def
           split: sum.splits option.splits prod.splits if_splits)

lemma patch_assets_update_error:
  "status (fst (patch_assets_update s req ident existing data)) \<noteq> 200 \<Longrightarrow>
     snd (patch_assets_update s req ident existing data) = s"
  by (auto simp: patch_assets_update_def json_def split: option.splits prod.splits)

lemma patch_assets_error:
  "status (fst (patch_assets s req ident parsed)) \<noteq> 200 \<Longrightarrow>
     snd (patch_assets s req ident parsed) = s"
  by (auto simp: patch_assets_def unauthorized_def json_def patch_assets_update_error
           split: sum.splits option.splits prod.splits if_splits)

lemma delete_assets_error:
  "status (fst (delete_assets s req ident)) \<noteq> 200 \<Longrightarrow>
     snd (delete_assets s req ident) = s"
  by (auto simp: delete_assets_def unauthorized_def json_def
           split: option.splits prod.splits if_splits)

lemma post_ad_users_error:
  "status (fst (post_ad_users s req parsed)) \<noteq> 201 \<Longrightarrow> snd (post_ad_users s req parsed) = s"
  by (auto simp: post_ad_users_def unauthorized_def
           split: sum.splits option.splits prod.splits if_splits)

lemma patch_ad_users_error:
  "status (fst (patch_ad_users s req ident parsed)) \<noteq> 200 \<Longrightarrow>
     snd (patch_ad_users s req ident parsed) = s"
  by (auto simp: patch_ad_users_def unauthorized_def json_def
           split: sum.splits option.splits prod.splits if_splits)

lemma delete_ad_users_error:
  "status (fst (delete_ad_users s req ident)) \<noteq> 200 \<Longrightarrow>
     snd (delete_ad_users s req ident) = s"
  by (auto simp: delete_ad_users_def unauthorized_def json_def
           split: option.splits prod.splits if_splits)

lemma post_categories_success:
  assumes "status (fst (post_categories s req parsed)) = 201"
  shows "\<exists>category log.
           categories (snd (post_categories s req parsed)) = categories s @ [category]
         \<and> auditLogs (snd (post_categories s req parsed)) = auditLogs s @ [log]
         \<and> body (fst (post_categories s req parsed)) = Entity (Some category)
         \<and> entityType log = ''category'' \<and> entityId log = get_prop category ''id''
         \<and> action log = ''create''
         \<and> previousData log = None \<and> newData log = Some category \<and> changes log = None
         \<and> constraints (snd (post_categories s req parsed))"
proof -
  from assms obtain data category s1 where
    p: "parsed = Inr data" "isAuthenticated req"
       "createCategory s (req_time req) data = Some (category, s1)"
    by (auto simp: post_categories_def unauthorized_def
             split: sum.splits option.splits prod.splits if_splits)
  let ?d = "audit_data req ''category'' (get_prop category ''id'') ''create'' None (Some category) None"
  have r: "post_categories s req parsed =
      (\<lparr>status = 201, body = Entity (Some category)\<rparr>, snd (createAuditLog s1 (req_time req) ?d))"
    using p by (simp add: post_categories_def)
  have s1: "categories s1 = categories s @ [category]" "auditLogs s1 = auditLogs s" "constraints s1"
    using createCategory_Some[OF p(3)] by auto
  show ?thesis
    unfolding r
    apply (rule exI[of _ category])
    apply (rule exI[of _ "fst (createAuditLog s1 (req_time req) ?d)"])
    apply (simp add: createAuditLog_tables createAuditLog_fields audit_data_fields s1
             constraints_createAuditLog)
    done
qed

lemma patch_categories_success:
  assumes "status (fst (patch_categories s req ident parsed)) = 200"
  shows "\<exists>existing data updated log.
           getCategory s (JStr ident) = Some existing \<and> parsed = Inr data
         \<and> updated = set_values categories_columns existing
               (set_prop data ''updatedAt'' (Date_at (req_time req)))
         \<and> updated \<in> set (categories (snd (patch_categories s req ident parsed)))
         \<and> auditLogs (snd (patch_categories s req ident parsed)) = auditLogs s @ [log]
         \<and> body (fst (patch_categories s req ident parsed)) = Entity (Some updated)
         \<and> entityType log = ''category'' \<and> entityId log = JStr ident \<and> action log = ''update''
         \<and> previousData log = Some existing \<and> newData log = Some updated
         \<and> changes log = Some (getChanges existing data)
         \<and> constraints (snd (patch_categories s req ident parsed))"
proof -
  from assms obtain existing data category s1 where
    p: "getCategory s (JStr ident) = Some existing" "parsed = Inr data" "isAuthenticated req"
       "updateCategory s (req_time req) (JStr ident) data = Some (category, s1)"
    by (auto simp: patch_categories_def unauthorized_def json_def
             split: sum.splits option.splits prod.splits if_splits)
  let ?u = "set_values categories_columns existing
               (set_prop data ''updatedAt'' (Date_at (req_time req)))"
  let ?d = "audit_data req ''category'' (JStr ident) ''update'' (Some existing) category
              (Some (getChanges existing data))"
  have "status (fst (patch_categories s req ident parsed)) = 200 \<longrightarrow>
      patch_categories s req ident parsed =
      (json (Entity category), snd (createAuditLog s1 (req_time req) ?d))"
    using p by (auto simp: patch_categories_def json_def split: option.splits)
  then have r: "patch_categories s req ident parsed =
      (json (Entity category), snd (createAuditLog s1 (req_time req) ?d))"
    using assms by simp
  have c: "category = Some ?u"
    using updateCategory_Some[OF p(4)] p(1) by simp
  have ex: "existing \<in> set (categories s)" "sql_eq ''id'' (JStr ident) existing"
    using p(1) find_SomeD unfolding getCategory_def by fastforce+
  have s1: "?u \<in> set (categories s1)" "auditLogs s1 = auditLogs s" "constraints s1"
    using updateCategory_Some[OF p(4)] ex by (auto simp: image_iff intro: bexI[of _ existing])
  show ?thesis
    unfolding r
    apply (rule exI[of _ existing])
    apply (rule exI[of _ data])
    apply (rule exI[of _ ?u])
    apply (rule exI[of _ "fst (createAuditLog s1 (req_time req) ?d)"])
    apply (simp add: p c json_def createAuditLog_tables createAuditLog_fields audit_data_fields s1
             constraints_createAuditLog)
    done
qed

lemma delete_categories_success:
  assumes "status (fst (delete_categories s req ident)) = 200"
  shows "\<exists>existing log.
           getCategory s (JStr ident) = Some existing
         \<and> getCategory (snd (delete_categories s req ident)) (JStr ident) = None
         \<and> auditLogs (snd (delete_categories s req ident)) = auditLogs s @ [log]
         \<and> entityType log = ''category'' \<and> entityId log = JStr ident \<and> action log = ''delete''
         \<and> previousData log = Some existing \<and> newData log = None \<and> changes log = None
         \<and> constraints (snd (delete_categories s req ident))"
proof -
  from assms obtain existing deleted s1 where
    p: "getCategory s (JStr ident) = Some existing" "isAuthenticated req"
       "deleteCategory s (JStr ident) = Some (deleted, s1)"
    by (auto simp: delete_categories_def unauthorized_def
             split: option.splits prod.splits if_splits)
  let ?d = "audit_data req ''category'' (JStr ident) ''delete'' (Some existing) None None"
  have r: "delete_categories s req ident =
      (json (Success deleted), snd (createAuditLog s1 (req_time req) ?d))"
    using p by (simp add: delete_categories_def)
  have s1: "getCategory s1 (JStr ident) = None" "auditLogs s1 = auditLogs s" "constraints s1"
    using deleteCategory_Some[OF p(3)] by (auto simp: getCategory_def find_filter_None)
  have g: "getCategory (snd (createAuditLog s1 (req_time req) ?d)) (JStr ident) = None"
    using s1 by (simp add: getCategory_def createAuditLog_tables)
  show ?thesis
    unfolding r
    apply (rule exI[of _ existing])
    apply (rule exI[of _ "fst (createAuditLog s1 (req_time req) ?d)"])
    apply (simp add: p g json_def createAuditLog_tables createAuditLog_fields audit_data_fields s1
             constraints_createAuditLog)
    done
qed

lemma post_assets_success:
  assumes "status (fst (post_assets s req parsed)) = 201"
  shows "\<exists>asset log.
           assets (snd (post_assets s req parsed)) = assets s @ [asset]
         \<and> auditLogs (snd (post_assets s req parsed)) = auditLogs s @ [log]
         \<and> body (fst (post_assets s req parsed)) = Entity (Some asset)
         \<and> entityType log = ''asset'' \<and> entityId log = get_prop asset ''id''
         \<and> action log = ''create''
         \<and> previousData log = None \<and> newData log = Some asset \<and> changes log = None
         \<and> constraints (snd (post_assets s req parsed))"
proof -
  from assms obtain data asset s1 where
    p: "parsed = Inr data" "isAuthenticated req"
       "createAsset s (req_time req) data = Some (asset, s1)"
       "getAssetByTag s (get_prop data ''assetTag'') = None"
    by (auto simp: post_assets_def unauthorized_def
             split: sum.splits option.splits prod.splits if_splits)
  let ?d = "audit_data req ''asset'' (get_prop asset ''id'') ''create'' None (Some asset) None"
  have r: "post_assets s req parsed =
      (\<lparr>status = 201, body = Entity (Some asset)\<rparr>, snd (createAuditLog s1 (req_time req) ?d))"
    using p by (simp add: post_assets_def)
  have s1: "assets s1 = assets s @ [asset]" "auditLogs s1 = auditLogs s" "constraints s1"
    using createAsset_Some[OF p(3)] by auto
  show ?thesis
    unfolding r
    apply (rule exI[of _ asset])
    apply (rule exI[of _ "fst (createAuditLog s1 (req_time req) ?d)"])
    apply (simp add: createAuditLog_tables createAuditLog_fields audit_data_fields s1
             constraints_createAuditLog)
    done
qed

lemma patch_assets_success:
  assumes "status (fst (patch_assets s req ident parsed)) = 200"
  shows "\<exists>existing data updated log.
           getAsset s (JStr ident) = Some existing \<and> parsed = Inr data
         \<and> updated = set_values assets_columns existing
               (set_prop data ''updatedAt'' (Date_at (req_time req)))
         \<and> updated \<in> set (assets (snd (patch_assets s req ident parsed)))
         \<and> auditLogs (snd (patch_assets s req ident parsed)) = auditLogs s @ [log]
         \<and> body (fst (patch_assets s req ident parsed)) = Entity (Some updated)
         \<and> entityType log = ''asset'' \<and> entityId log = JStr ident \<and> action log = ''update''
         \<and> previousData log = Some existing \<and> newData log = Some updated
         \<and> changes log = Some (getChanges existing data)
         \<and> constraints (snd (patch_assets s req ident parsed))"
proof -
  from assms obtain existing data asset s1 where
    p: "getAsset s (JStr ident) = Some existing" "parsed = Inr data" "isAuthenticated req"
       "updateAsset s (req_time req) (JStr ident) data = Some (asset, s1)"
    by (auto simp: patch_assets_def unauthorized_def patch_assets_update_def json_def
             split: sum.splits option.splits prod.splits if_splits)
  let ?u = "set_values assets_columns existing
               (set_prop data ''updatedAt'' (Date_at (req_time req)))"
  let ?d = "audit_data req ''asset'' (JStr ident) ''update'' (Some existing) asset
              (Some (getChanges existing data))"
  have "status (fst (patch_assets s req ident parsed)) = 200 \<longrightarrow>
      patch_assets s req ident parsed =
      (json (Entity asset), snd (createAuditLog s1 (req_time req) ?d))"
    using p by (auto simp: patch_assets_def patch_assets_update_def json_def split: option.splits)
  then have r: "patch_assets s req ident parsed =
      (json (Entity asset), snd (createAuditLog s1 (req_time req) ?d))"
    using assms by simp
  have c: "asset = Some ?u"
    using updateAsset_Some[OF p(4)] p(1) by simp
  have ex: "existing \<in> set (assets s)" "sql_eq ''id'' (JStr ident) existing"
    using p(1) find_SomeD unfolding getAsset_def by fastforce+
  have s1: "?u \<in> set (assets s1)" "auditLogs s1 = auditLogs s" "constraints s1"
    using updateAsset_Some[OF p(4)] ex by (auto simp: image_iff intro: bexI[of _ existing])
  show ?thesis
    unfolding r
    apply (rule exI[of _ existing])
    apply (rule exI[of _ data])
    apply (rule exI[of _ ?u])
    apply (rule exI[of _ "fst (createAuditLog s1 (req_time req) ?d)"])
    apply (simp add: p c json_def createAuditLog_tables createAuditLog_fields audit_data_fields s1
             constraints_createAuditLog)
    done
qed

lemma delete_assets_success:
  assumes "status (fst (delete_assets s req ident)) = 200"
  shows "\<exists>existing log.
           getAsset s (JStr ident) = Some existing
         \<and> getAsset (snd (delete_assets s req ident)) (JStr ident) = None
         \<and> auditLogs (snd (delete_assets s req ident)) = auditLogs s @ [log]
         \<and> entityType log = ''asset'' \<and> entityId log = JStr ident \<and> action log = ''delete''
         \<and> previousData log = Some existing \<and> newData log = None \<and> changes log = None
         \<and> constraints (snd (delete_assets s req ident))"
proof -
  from assms obtain existing deleted s1 where
    p: "getAsset s (JStr ident) = Some existing" "isAuthenticated req"
       "deleteAsset s (JStr ident) = Some (deleted, s1)"
    by (auto simp: delete_assets_def unauthorized_def
             split: option.splits prod.splits if_splits)
  let ?d = "audit_data req ''asset'' (JStr ident) ''delete'' (Some existing) None None"
  have r: "delete_assets s req ident =
      (json (Success deleted), snd (createAuditLog s1 (req_time req) ?d))"
    using p by (simp add: delete_assets_def)
  have s1: "getAsset s1 (JStr ident) = None" "auditLogs s1 = auditLogs s" "constraints s1"
    using deleteAsset_Some[OF p(3)] by (auto simp: getAsset_def find_filter_None)
  have g: "getAsset (snd (createAuditLog s1 (req_time req) ?d)) (JStr ident) = None"
    using s1 by (simp add: getAsset_def createAuditLog_tables)
  show ?thesis
    unfolding r
    apply (rule exI[of _ existing])
    apply (rule exI[of _ "fst (createAuditLog s1 (req_time req) ?d)"])
    apply (simp add: p g json_def createAuditLog_tables createAuditLog_fields audit_data_fields s1
             constraints_createAuditLog)
    done
qed

lemma post_ad_users_success:
  assumes "status (fst (post_ad_users s req parsed)) = 201"
  shows "\<exists>adUser log.
           adUsers (snd (post_ad_users s req parsed)) = adUsers s @ [adUser]
         \<and> auditLogs (snd (post_ad_users s req parsed)) = auditLogs s @ [log]
         \<and> body (fst (post_ad_users s req parsed)) = Entity (Some adUser)
         \<and> entityType log = ''user'' \<and> entityId log = get_prop adUser ''id''
         \<and> action log = ''create''
         \<and> previousData log = None \<and> newData log = Some adUser \<and> changes log = None
         \<and> constraints (snd (post_ad_users s req parsed))"
proof -
  from assms obtain data adUser s1 where
    p: "parsed = Inr data" "isAuthenticated req"
       "createAdUser s (req_time req) data = Some (adUser, s1)"
    by (auto simp: post_ad_users_def unauthorized_def
             split: sum.splits option.splits prod.splits if_splits)
  let ?d = "audit_data req ''user'' (get_prop adUser ''id'') ''create'' None (Some adUser) None"
  have r: "post_ad_users s req parsed =
      (\<lparr>status = 201, body = Entity (Some adUser)\<rparr>, snd (createAuditLog s1 (req_time req) ?d))"
    using p by (simp add: post_ad_users_def)
  have s1: "adUsers s1 = adUsers s @ [adUser]" "auditLogs s1 = auditLogs s" "constraints s1"
    using createAdUser_Some[OF p(3)] by auto
  show ?thesis
    unfolding r
    apply (rule exI[of _ adUser])
    apply (rule exI[of _ "fst (createAuditLog s1 (req_time req) ?d)"])
    apply (simp add: createAuditLog_tables createAuditLog_fields audit_data_fields s1
             constraints_createAuditLog)
    done
qed

lemma patch_ad_users_success:
  assumes "status (fst (patch_ad_users s req ident parsed)) = 200"
  shows "\<exists>existing data updated log.
           getAdUser s (JStr ident) = Some existing \<and> parsed = Inr data
         \<and> updated = set_values adUsers_columns existing
               (set_prop data ''updatedAt'' (Date_at (req_time req)))
         \<and> updated \<in> set (adUsers (snd (patch_ad_users s req ident parsed)))
         \<and> auditLogs (snd (patch_ad_users s req ident parsed)) = auditLogs s @ [log]
         \<and> body (fst (patch_ad_users s req ident parsed)) = Entity (Some updated)
         \<and> entityType log = ''user'' \<and> entityId log = JStr ident \<and> action log = ''update''
         \<and> previousData log = Some existing \<and> newData log = Some updated
         \<and> changes log = Some (getChanges existing data)
         \<and> constraints (snd (patch_ad_users s req ident parsed))"
proof -
  from assms obtain existing data adUser s1 where
    p: "getAdUser s (JStr ident) = Some existing" "parsed = Inr data" "isAuthenticated req"
       "updateAdUser s (req_time req) (JStr ident) data = Some (adUser, s1)"
    by (auto simp: patch_ad_users_def unauthorized_def json_def
             split: sum.splits option.splits prod.splits if_splits)
  let ?u = "set_values adUsers_columns existing
               (set_prop data ''updatedAt'' (Date_at (req_time req)))"
  let ?d = "audit_data req ''user'' (JStr ident) ''update'' (Some existing) adUser
              (Some (getChanges existing data))"
  have "status (fst (patch_ad_users s req ident parsed)) = 200 \<longrightarrow>
      patch_ad_users s req ident parsed =
      (json (Entity adUser), snd (createAuditLog s1 (req_time req) ?d))"
    using p by (auto simp: patch_ad_users_def json_def split: option.splits)
  then have r: "patch_ad_users s req ident parsed =
      (json (Entity adUser), snd (createAuditLog s1 (req_time req) ?d))"
    using assms by simp
  have c: "adUser = Some ?u"
    using updateAdUser_Some[OF p(4)] p(1) by simp
  have ex: "existing \<in> set (adUsers s)" "sql_eq ''id'' (JStr ident) existing"
    using p(1) find_SomeD unfolding getAdUser_def by fastforce+
  have s1: "?u \<in> set (adUsers s1)" "auditLogs s1 = auditLogs s" "constraints s1"
    using updateAdUser_Some[OF p(4)] ex by (auto simp: image_iff intro: bexI[of _ existing])
  show ?thesis
    unfolding r
    apply (rule exI[of _ existing])
    apply (rule exI[of _ data])
    apply (rule exI[of _ ?u])
    apply (rule exI[of _ "fst (createAuditLog s1 (req_time req) ?d)"])
    apply (simp add: p c json_def createAuditLog_tables createAuditLog_fields audit_data_fields s1
             constraints_createAuditLog)
    done
qed

lemma delete_ad_users_success:
  assumes "status (fst (delete_ad_users s req ident)) = 200"
  shows "\<exists>existing log.
           getAdUser s (JStr ident) = Some existing
         \<and> getAdUser (snd (delete_ad_users s req ident)) (JStr ident) = None
         \<and> auditLogs (snd (delete_ad_users s req ident)) = auditLogs s @ [log]
         \<and> entityType log = ''user'' \<and> entityId log = JStr ident \<and> action log = ''delete''
         \<and> previousData log = Some existing \<and> newData log = None \<and> changes log = None
         \<and> constraints (snd (delete_ad_users s req ident))"
proof -
  from assms obtain existing deleted s1 where
    p: "getAdUser s (JStr ident) = Some existing" "isAuthenticated req"
       "deleteAdUser s (JStr ident) = Some (deleted, s1)"
    by (auto simp: delete_ad_users_def unauthorized_def
             split: option.splits prod.splits if_splits)
  let ?d = "audit_data req ''user'' (JStr ident) ''delete'' (Some existing) None None"
  have r: "delete_ad_users s req ident =
      (json (Success deleted), snd (createAuditLog s1 (req_time req) ?d))"
    using p by (simp add: delete_ad_users_def)
  have s1: "getAdUser s1 (JStr ident) = None" "auditLogs s1 = auditLogs s" "constraints s1"
    using deleteAdUser_Some[OF p(3)] by (auto simp: getAdUser_def find_filter_None)
  have g: "getAdUser (snd (createAuditLog s1 (req_time req) ?d)) (JStr ident) = None"
    using s1 by (simp add: getAdUser_def createAuditLog_tables)
  show ?thesis
    unfolding r
    apply (rule exI[of _ existing])
    apply (rule exI[of _ "fst (createAuditLog s1 (req_time req) ?d)"])
    apply (simp add: p g json_def createAuditLog_tables createAuditLog_fields audit_data_fields s1
             constraints_createAuditLog)
    done
qed

section \<open>The import loop\<close>

lemma truthy_defined: "truthy v \<Longrightarrow> v \<noteq> JUndefined \<and> v \<noteq> JNull"
  by (cases v) auto


lemma get_prop_Cons: "get_prop ((k, v) # ob) k' = (if k' = k then v else get_prop ob k')"
  by (simp add: get_prop_def)

lemma import_status:
  "get_prop (new_row assets_columns now uuid (import_assetData row cid)) ''status'' =
     (if truthy (get_prop row ''status'') \<and> get_prop row ''status'' \<in> set (map JStr ASSET_STATUSES)
      then get_prop row ''status'' else JStr ''active'')"
proof -
  let ?v = "if truthy (get_prop row ''status'') \<and> get_prop row ''status'' \<in> set (map JStr ASSET_STATUSES)
      then get_prop row ''status'' else JStr ''active''"
  have d: "get_prop (import_assetData row cid) ''status'' = ?v"
    unfolding import_assetData_def by (simp only: get_prop_Cons) simp
  obtain st where st: "?v = JStr st" by (cases "?v") (auto split: if_splits)
  have d': "get_prop (import_assetData row cid) ''status'' = JStr st"
    using d st by simp
  have "get_prop (new_row assets_columns now uuid (import_assetData row cid)) ''status'' =
      JStr st"
    by (simp add: new_row_def assets_columns_def get_prop_Cons Let_def d' cell_def)
  then show ?thesis using st by simp
qed

lemma import_assetTag:
  assumes "truthy (get_prop row ''assetTag'')"
  shows "get_prop (new_row assets_columns now uuid (import_assetData row cid)) ''assetTag'' =
     to_text (get_prop row ''assetTag'')"
proof -
  have d: "get_prop (import_assetData row cid) ''assetTag'' = get_prop row ''assetTag''"
    unfolding import_assetData_def by (simp only: get_prop_Cons) simp
  show ?thesis
    unfolding new_row_def assets_columns_def
    using truthy_defined[OF assms] by (simp add: get_prop_Cons Let_def d cell_def)
qed

lemma import_row_failed:
  "\<not> fst (import_row req cid s r) \<Longrightarrow> snd (import_row req cid s r) = s"
  by (auto simp: import_row_def split: import_row.splits option.splits prod.splits if_splits)


lemma import_row_imported:
  assumes "fst (import_row req cid s r)"
  shows "\<exists>row asset log.
           r = Row row
         \<and> assets (snd (import_row req cid s r)) = assets s @ [asset]
         \<and> get_prop asset ''assetTag'' = to_text (get_prop row ''assetTag'')
         \<and> get_prop asset ''status'' =
             (if truthy (get_prop row ''status'') \<and>
                 get_prop row ''status'' \<in> set (map JStr ASSET_STATUSES)
              then get_prop row ''status'' else JStr ''active'')
         \<and> auditLogs (snd (import_row req cid s r)) = auditLogs s @ [log]
         \<and> entityType log = ''asset'' \<and> entityId log = get_prop asset ''id''
         \<and> action log = ''create'' \<and> previousData log = None
         \<and> newData log = Some (set_prop asset ''source'' (JStr ''import''))
         \<and> changes log = None
         \<and> categories (snd (import_row req cid s r)) = categories s
         \<and> adUsers (snd (import_row req cid s r)) = adUsers s
         \<and> users (snd (import_row req cid s r)) = users s
         \<and> constraints (snd (import_row req cid s r))"
proof -
  from assms obtain row asset s1 where
    p: "r = Row row" "truthy (get_prop row ''assetTag'')" "truthy (get_prop row ''name'')"
       "getAssetByTag s (get_prop row ''assetTag'') = None"
       "createAsset s (req_time req) (import_assetData row cid) = Some (asset, s1)"
    by (auto simp: import_row_def split: import_row.splits option.splits prod.splits if_splits)
  let ?d = "audit_data req ''asset'' (get_prop asset ''id'') ''create'' None
              (Some (set_prop asset ''source'' (JStr ''import''))) None"
  have r: "import_row req cid s r = (True, snd (createAuditLog s1 (req_time req) ?d))"
    using p by (simp add: import_row_def)
  have s1: "assets s1 = assets s @ [asset]" "auditLogs s1 = auditLogs s" "constraints s1"
      "categories s1 = categories s" "adUsers s1 = adUsers s" "users s1 = users s"
      "asset = new_row assets_columns (req_time req) (gen_random_uuid s) (import_assetData row cid)"
    using createAsset_Some[OF p(5)] by auto
  show ?thesis
    unfolding r
    apply (rule exI[of _ row])
    apply (rule exI[of _ asset])
    apply (rule exI[of _ "fst (createAuditLog s1 (req_time req) ?d)"])
    apply (simp add: p(1) createAuditLog_tables createAuditLog_fields audit_data_fields s1(1-6)
             constraints_createAuditLog)
    apply (simp add: s1(7) import_status import_assetTag[OF p(2)])
    done
qed



lemma import_loop_counts:
  "import_loop req cid rs (a, b, s) = (a', b', s') \<Longrightarrow>
     a' + b' = a + b + length rs \<and> a \<le> a'
     \<and> length (assets s') = length (assets s) + (a' - a)
     \<and> length (auditLogs s') = length (auditLogs s) + (a' - a)
     \<and> prefix (assets s) (assets s') \<and> prefix (auditLogs s) (auditLogs s')
     \<and> categories s' = categories s \<and> adUsers s' = adUsers s \<and> users s' = users s
     \<and> (constraints s \<longrightarrow> constraints s')"
proof (induction rs arbitrary: a b s)
  case Nil
  then show ?case by simp
next
  case (Cons r rs)
  show ?case
  proof (cases "fst (import_row req cid s r)")
    case True
    from import_row_imported[OF True] obtain asset log where
      st: "assets (snd (import_row req cid s r)) = assets s @ [asset]"
          "auditLogs (snd (import_row req cid s r)) = auditLogs s @ [log]"
          "categories (snd (import_row req cid s r)) = categories s"
          "adUsers (snd (import_row req cid s r)) = adUsers s"
          "users (snd (import_row req cid s r)) = users s"
          "constraints (snd (import_row req cid s r))"
      by auto
    have "import_loop req cid rs (a + 1, b, snd (import_row req cid s r)) = (a', b', s')"
      using Cons.prems True by (simp split: prod.splits bool.splits)
    from Cons.IH[OF this] show ?thesis
      using st by (auto simp: prefix_def)
  next
    case False
    have "import_loop req cid rs (a, b + 1, s) = (a', b', s')"
      using Cons.prems False import_row_failed[OF False]
      by (simp split: prod.splits bool.splits)
    from Cons.IH[OF this] show ?thesis by auto
  qed
qed

lemma post_import_result:
  assumes "isAuthenticated req"
  shows "\<exists>success failed summary.
           fst (post_import s req (Some rows) categoryId) =
             json (Imported success failed (length rows))
         \<and> success + failed = length rows
         \<and> length (assets (snd (post_import s req (Some rows) categoryId))) =
             length (assets s) + success
         \<and> prefix (assets s) (assets (snd (post_import s req (Some rows) categoryId)))
         \<and> length (auditLogs (snd (post_import s req (Some rows) categoryId))) =
             length (auditLogs s) + success + 1
         \<and> last (auditLogs (snd (post_import s req (Some rows) categoryId))) = summary
         \<and> entityType summary = ''system'' \<and> entityId summary = JStr ''import''
         \<and> action summary = ''import''"
proof -
  obtain a b s1 where l: "import_loop req categoryId rows (0, 0, s) = (a, b, s1)"
    by (cases "import_loop req categoryId rows (0, 0, s)")
  let ?d = "audit_data req ''system'' (JStr ''import'') ''import'' None
              (Some [(''totalRows'', JNum (int (length rows))),
                     (''success'', JNum (int a)),
                     (''failed'', JNum (int b))]) None"
  have r: "post_import s req (Some rows) categoryId =
      (json (Imported a b (length rows)), snd (createAuditLog s1 (req_time req) ?d))"
    using assms l by (simp add: post_import_def)
  from import_loop_counts[OF l] have c:
    "a + b = length rows" "length (assets s1) = length (assets s) + a"
    "length (auditLogs s1) = length (auditLogs s) + a" "prefix (assets s) (assets s1)"
    by auto
  show ?thesis
    unfolding r
    apply (rule exI[of _ a])
    apply (rule exI[of _ b])
    apply (rule exI[of _ "fst (createAuditLog s1 (req_time req) ?d)"])
    apply (simp add: c createAuditLog_tables createAuditLog_fields audit_data_fields)
    done
qed

section \<open>What every call leaves in place\<close>

lemma sync_loop_frame:
  "sync_loop now us (c, u, s) = (res, s') \<Longrightarrow>
     auditLogs s' = auditLogs s \<and> assets s' = assets s \<and> categories s' = categories s
     \<and> users s' = users s \<and> (constraints s \<longrightarrow> constraints s')"
proof (induction us arbitrary: c u s)
  case Nil
  then show ?case by simp
next
  case (Cons x us)
  show ?case
  proof (cases "getAdUserByEmail s (JStr (email x))")
    case None
    show ?thesis
    proof (cases "createAdUser s now (sync_userData x)")
      case N: None
      with Cons.prems None show ?thesis by simp
    next
      case (Some r)
      obtain a s1 where r: "r = (a, s1)" by (cases r)
      have "sync_loop now us (c + 1, u, s1) = (res, s')"
        using Cons.prems None Some r by simp
      from Cons.IH[OF this] createAdUser_Some[of s now "sync_userData x" a s1] Some r
      show ?thesis by auto
    qed
  next
    case (Some e)
    show ?thesis
    proof (cases "updateAdUser s now (get_prop e ''id'') (sync_userData x)")
      case None
      with Cons.prems Some show ?thesis by simp
    next
      case S: (Some r)
      obtain a s1 where r: "r = (a, s1)" by (cases r)
      have "sync_loop now us (c, u + 1, s1) = (res, s')"
        using Cons.prems Some S r by simp
      from Cons.IH[OF this] updateAdUser_Some[of s now "get_prop e ''id''" "sync_userData x" a s1] S r
      show ?thesis by auto
    qed
  qed
qed

lemma sync_loop_counts:
  "sync_loop now us (c, u, s) = (Some (c', u'), s') \<Longrightarrow>
     c' + u' = c + u + length us \<and> c \<le> c'
     \<and> length (adUsers s') = length (adUsers s) + (c' - c)"
proof (induction us arbitrary: c u s)
  case Nil
  then show ?case by simp
next
  case (Cons x us)
  show ?case
  proof (cases "getAdUserByEmail s (JStr (email x))")
    case None
    show ?thesis
    proof (cases "createAdUser s now (sync_userData x)")
      case N: None
      with Cons.prems None show ?thesis by simp
    next
      case (Some r)
      obtain a s1 where r: "r = (a, s1)" by (cases r)
      have "sync_loop now us (c + 1, u, s1) = (Some (c', u'), s')"
        using Cons.prems None Some r by simp
      from Cons.IH[OF this] createAdUser_Some[of s now "sync_userData x" a s1] Some r
      show ?thesis by auto
    qed
  next
    case (Some e)
    show ?thesis
    proof (cases "updateAdUser s now (get_prop e ''id'') (sync_userData x)")
      case None
      with Cons.prems Some show ?thesis by simp
    next
      case S: (Some r)
      obtain a s1 where r: "r = (a, s1)" by (cases r)
      have "sync_loop now us (c, u + 1, s1) = (Some (c', u'), s')"
        using Cons.prems Some S r by simp
      from Cons.IH[OF this] updateAdUser_Some[of s now "get_prop e ''id''" "sync_userData x" a s1] S r
      show ?thesis by auto
    qed
  qed
qed

lemma post_ad_users_sync_success:
  assumes "status (fst (post_ad_users_sync s req directory)) = 200"
  shows "\<exists>total created updated log.
           body (fst (post_ad_users_sync s req directory)) = Synced total created updated
         \<and> length (adUsers (snd (post_ad_users_sync s req directory))) =
             length (adUsers s) + created
         \<and> (\<forall>ldapUsers. directory = LdapUsers ldapUsers \<longrightarrow>
              total = length ldapUsers \<and> created + updated = total)
         \<and> auditLogs (snd (post_ad_users_sync s req directory)) = auditLogs s @ [log]
         \<and> entityType log = ''system'' \<and> entityId log = JStr ''ad-sync''
         \<and> action log = ''sync'' \<and> previousData log = None \<and> changes log = None"
proof -
  have auth: "isAuthenticated req"
    using assms by (auto simp: post_ad_users_sync_def unauthorized_def split: if_splits)
  show ?thesis
  proof (cases directory)
    case LdapNotConfigured
    let ?d = "audit_data req ''system'' (JStr ''ad-sync'') ''sync'' None
                (Some [(''action'', JStr ''AD Sync triggered (LDAP not configured - simulated)'')])
                None"
    have r: "post_ad_users_sync s req directory =
        (json (Synced 0 0 0), snd (createAuditLog s (req_time req) ?d))"
      using auth LdapNotConfigured by (simp add: post_ad_users_sync_def)
    show ?thesis
      unfolding r
      apply (rule exI[of _ 0])
      apply (rule exI[of _ 0])
      apply (rule exI[of _ 0])
      apply (rule exI[of _ "fst (createAuditLog s (req_time req) ?d)"])
      apply (simp add: LdapNotConfigured json_def createAuditLog_tables createAuditLog_fields
               audit_data_fields)
      done
  next
    case (LdapError m)
    with assms auth show ?thesis by (simp add: post_ad_users_sync_def)
  next
    case (LdapUsers us)
    obtain res s1 where l: "sync_loop (req_time req) us (0, 0, s) = (res, s1)"
      by (cases "sync_loop (req_time req) us (0, 0, s)")
    from assms auth LdapUsers l obtain created updated where res: "res = Some (created, updated)"
      by (cases res) (auto simp: post_ad_users_sync_def)
    let ?d = "audit_data req ''system'' (JStr ''ad-sync'') ''sync'' None
                (Some [(''action'', JStr ''AD Sync completed''),
                       (''totalUsers'', JNum (int (length us))),
                       (''created'', JNum (int created)),
                       (''updated'', JNum (int updated))])
                None"
    have r: "post_ad_users_sync s req directory =
        (json (Synced (length us) created updated), snd (createAuditLog s1 (req_time req) ?d))"
      using auth LdapUsers l res by (simp add: post_ad_users_sync_def)
    have c: "created + updated = length us" "length (adUsers s1) = length (adUsers s) + created"
      using sync_loop_counts[OF l[unfolded res]] by auto
    have a: "auditLogs s1 = auditLogs s"
      using sync_loop_frame[OF l] by simp
    show ?thesis
      unfolding r
      apply (rule exI[of _ "length us"])
      apply (rule exI[of _ created])
      apply (rule exI[of _ updated])
      apply (rule exI[of _ "fst (createAuditLog s1 (req_time req) ?d)"])
      apply (simp add: LdapUsers json_def createAuditLog_tables createAuditLog_fields
               audit_data_fields c a)
      done
  qed
qed

lemma post_ad_users_sync_frame:
  "prefix (auditLogs s) (auditLogs (snd (post_ad_users_sync s req directory)))
   \<and> assets (snd (post_ad_users_sync s req directory)) = assets s
   \<and> (constraints s \<longrightarrow> constraints (snd (post_ad_users_sync s req directory)))"
proof (cases "isAuthenticated req")
  case False
  then show ?thesis by (simp add: post_ad_users_sync_def)
next
  case True
  show ?thesis
  proof (cases directory)
    case LdapNotConfigured
    with True show ?thesis
      by (simp add: post_ad_users_sync_def createAuditLog_tables constraints_createAuditLog)
  next
    case (LdapError m)
    with True show ?thesis by (simp add: post_ad_users_sync_def)
  next
    case (LdapUsers us)
    obtain res s1 where l: "sync_loop (req_time req) us (0, 0, s) = (res, s1)"
      by (cases "sync_loop (req_time req) us (0, 0, s)")
    from sync_loop_frame[OF l] True LdapUsers l show ?thesis
      by (cases res)
         (auto simp: post_ad_users_sync_def createAuditLog_tables constraints_createAuditLog)
  qed
qed

lemma post_import_frame:
  "prefix (auditLogs s) (auditLogs (snd (post_import s req rows cid)))
   \<and> prefix (assets s) (assets (snd (post_import s req rows cid)))
   \<and> (constraints s \<longrightarrow> constraints (snd (post_import s req rows cid)))"
proof (cases "isAuthenticated req \<and> rows \<noteq> None")
  case False
  then show ?thesis by (auto simp: post_import_def)
next
  case True
  then obtain rs where rs: "rows = Some rs" by auto
  obtain a b s1 where l: "import_loop req cid rs (0, 0, s) = (a, b, s1)"
    by (cases "import_loop req cid rs (0, 0, s)")
  from import_loop_counts[OF l] True rs l show ?thesis
    by (auto simp: post_import_def createAuditLog_tables constraints_createAuditLog prefix_def)
qed

lemma post_auth_register_frame:
  "auditLogs (snd (post_auth_register env s now parsed le)) = auditLogs s
   \<and> assets (snd (post_auth_register env s now parsed le)) = assets s
   \<and> (constraints s \<longrightarrow> constraints (snd (post_auth_register env s now parsed le)))"
  by (auto simp: post_auth_register_def registerUser_def Let_def
           split: sum.splits option.splits if_splits)

lemma post_categories_frame:
  "prefix (auditLogs s) (auditLogs (snd (post_categories s req parsed)))
   \<and> (constraints s \<longrightarrow> constraints (snd (post_categories s req parsed)))"
proof (cases "status (fst (post_categories s req parsed)) = 201")
  case True
  from post_categories_success[OF True] show ?thesis by auto
next
  case False
  from post_categories_error[OF False] show ?thesis by simp
qed

lemma patch_categories_frame:
  "prefix (auditLogs s) (auditLogs (snd (patch_categories s req ident parsed)))
   \<and> (constraints s \<longrightarrow> constraints (snd (patch_categories s req ident parsed)))"
proof (cases "status (fst (patch_categories s req ident parsed)) = 200")
  case True
  from patch_categories_success[OF True] show ?thesis by auto
next
  case False
  from patch_categories_error[OF False] show ?thesis by simp
qed

lemma delete_categories_frame:
  "prefix (auditLogs s) (auditLogs (snd (delete_categories s req ident)))
   \<and> (constraints s \<longrightarrow> constraints (snd (delete_categories s req ident)))"
proof (cases "status (fst (delete_categories s req ident)) = 200")
  case True
  from delete_categories_success[OF True] show ?thesis by auto
next
  case False
  from delete_categories_error[OF False] show ?thesis by simp
qed

lemma post_assets_frame:
  "prefix (auditLogs s) (auditLogs (snd (post_assets s req parsed)))
   \<and> (constraints s \<longrightarrow> constraints (snd (post_assets s req parsed)))"
proof (cases "status (fst (post_assets s req parsed)) = 201")
  case True
  from post_assets_success[OF True] show ?thesis by auto
next
  case False
  from post_assets_error[OF False] show ?thesis by simp
qed

lemma patch_assets_frame:
  "prefix (auditLogs s) (auditLogs (snd (patch_assets s req ident parsed)))
   \<and> (constraints s \<longrightarrow> constraints (snd (patch_assets s req ident parsed)))"
proof (cases "status (fst (patch_assets s req ident parsed)) = 200")
  case True
  from patch_assets_success[OF True] show ?thesis by auto
next
  case False
  from patch_assets_error[OF False] show ?thesis by simp
qed

lemma delete_assets_frame:
  "prefix (auditLogs s) (auditLogs (snd (delete_assets s req ident)))
   \<and> (constraints s \<longrightarrow> constraints (snd (delete_assets s req ident)))"
proof (cases "status (fst (delete_assets s req ident)) = 200")
  case True
  from delete_assets_success[OF True] show ?thesis by auto
next
  case False
  from delete_assets_error[OF False] show ?thesis by simp
qed

lemma post_ad_users_frame:
  "prefix (auditLogs s) (auditLogs (snd (post_ad_users s req parsed)))
   \<and> (constraints s \<longrightarrow> constraints (snd (post_ad_users s req parsed)))"
proof (cases "status (fst (post_ad_users s req parsed)) = 201")
  case True
  from post_ad_users_success[OF True] show ?thesis by auto
next
  case False
  from post_ad_users_error[OF False] show ?thesis by simp
qed

lemma patch_ad_users_frame:
  "prefix (auditLogs s) (auditLogs (snd (patch_ad_users s req ident parsed)))
   \<and> (constraints s \<longrightarrow> constraints (snd (patch_ad_users s req ident parsed)))"
proof (cases "status (fst (patch_ad_users s req ident parsed)) = 200")
  case True
  from patch_ad_users_success[OF True] show ?thesis by auto
next
  case False
  from patch_ad_users_error[OF False] show ?thesis by simp
qed

lemma delete_ad_users_frame:
  "prefix (auditLogs s) (auditLogs (snd (delete_ad_users s req ident)))
   \<and> (constraints s \<longrightarrow> constraints (snd (delete_ad_users s req ident)))"
proof (cases "status (fst (delete_ad_users s req ident)) = 200")
  case True
  from delete_ad_users_success[OF True] show ?thesis by auto
next
  case False
  from delete_ad_users_error[OF False] show ?thesis by simp
qed

lemma handle_frame:
  "prefix (auditLogs s) (auditLogs (snd (handle env s c)))
   \<and> (constraints s \<longrightarrow> constraints (snd (handle env s c)))"
proof (cases c)
  case (PostCategories req parsed)
  then show ?thesis using post_categories_frame by simp
next
  case (PatchCategories req ident parsed)
  then show ?thesis using patch_categories_frame by simp
next
  case (DeleteCategories req ident)
  then show ?thesis using delete_categories_frame by simp
next
  case (PostAssets req parsed)
  then show ?thesis using post_assets_frame by simp
next
  case (PatchAssets req ident parsed)
  then show ?thesis using patch_assets_frame by simp
next
  case (DeleteAssets req ident)
  then show ?thesis using delete_assets_frame by simp
next
  case (PostAdUsers req parsed)
  then show ?thesis using post_ad_users_frame by simp
next
  case (PatchAdUsers req ident parsed)
  then show ?thesis using patch_ad_users_frame by simp
next
  case (DeleteAdUsers req ident)
  then show ?thesis using delete_ad_users_frame by simp
next
  case (PostAdUsersSync req directory)
  then show ?thesis using post_ad_users_sync_frame by simp
next
  case (PostImport req rows cid)
  then show ?thesis using post_import_frame by simp
next
  case (GetAuditLogs q)
  then show ?thesis by simp
next
  case (PostAuthRegister now parsed le)
  then show ?thesis using post_auth_register_frame by simp
next
  case (PostAuthLogin parsed le)
  then show ?thesis by simp
next
  case (GetAuthUser req)
  then show ?thesis by simp
qed

lemma run_frame:
  "prefix (auditLogs s) (auditLogs (run env s cs))
   \<and> (constraints s \<longrightarrow> constraints (run env s cs))"
proof (induction cs arbitrary: s)
  case Nil
  then show ?case by simp
next
  case (Cons c cs)
  from Cons.IH[of "snd (handle env s c)"] handle_frame[of s env c]
  show ?case by (auto intro: prefix_order.trans)
qed

lemma constraints_empty_db: "constraints empty_db"
  by (simp add: constraints_def empty_db_def primary_key_def not_null_def unique_def
        foreign_key_def column_values_def no_NUL_def)

lemma constraints_distinct_tags:
  assumes "constraints s"
  shows "distinct (column_values ''assetTag'' (assets s))"
proof -
  have n: "JNull \<notin> set (column_values ''assetTag'' (assets s))"
    and u: "distinct (filter (\<lambda>v. v \<noteq> JNull) (column_values ''assetTag'' (assets s)))"
    using assms by (simp_all add: constraints_def unique_def not_null_def)
  have "filter (\<lambda>v. v \<noteq> JNull) (column_values ''assetTag'' (assets s)) =
      column_values ''assetTag'' (assets s)"
    using n by (intro filter_True) auto
  with u show ?thesis by simp
qed

section \<open>Error responses\<close>




section \<open>Audit records of successful calls\<close>

text \<open>
  Claim C1, as amended. Every call of the create, update and delete routes of
  categories, assets and directory users (\<open>POST\<close>, \<open>PATCH\<close> and \<open>DELETE\<close> on
  \<open>/api/categories\<close>, \<open>/api/assets\<close> and \<open>/api/ad-users\<close>) that succeeds (status 201 for
  a create, 200 otherwise) appends exactly one audit log while the call is handled: a
  create stores the new row as \<open>newData\<close>; an update stores the old row as
  \<open>previousData\<close>, the updated row as \<open>newData\<close> and as \<open>changes\<close> the diff of the old
  row against the request's data, \<open>getChanges(existing, data)\<close>, which lists the fields
  of the request that differ and not the \<open>updatedAt\<close> the update sets itself; a delete
  stores the old row as \<open>previousData\<close>. Every row that the bulk import creates appends
  exactly one audit log as well, whose \<open>newData\<close> is the new asset extended by the
  property \<open>source = "import"\<close>; after its rows the import call appends one more audit
  log, of entity type \<open>system\<close>, that counts them. The directory synchronisation
  \<open>POST /api/ad-users/sync\<close> creates and updates directory users without an audit log
  for any of them: a call that succeeds appends one audit log, of entity type \<open>system\<close>
  and action \<open>sync\<close>, with neither \<open>previousData\<close> nor \<open>changes\<close>.
\<close>

theorem mutations_write_one_audit_log:
  "(status (fst (post_categories s req parsed)) = 201 \<longrightarrow>
      (\<exists>category log.
           categories (snd (post_categories s req parsed)) = categories s @ [category]
         \<and> auditLogs (snd (post_categories s req parsed)) = auditLogs s @ [log]
         \<and> body (fst (post_categories s req parsed)) = Entity (Some category)
         \<and> entityType log = ''category'' \<and> entityId log = get_prop category ''id''
         \<and> action log = ''create''
         \<and> previousData log = None \<and> newData log = Some category \<and> changes log = None))
   \<and> (status (fst (patch_categories s req ident parsed)) = 200 \<longrightarrow>
      (\<exists>existing data updated log.
           getCategory s (JStr ident) = Some existing \<and> parsed = Inr data
         \<and> updated = set_values categories_columns existing
               (set_prop data ''updatedAt'' (Date_at (req_time req)))
         \<and> updated \<in> set (categories (snd (patch_categories s req ident parsed)))
         \<and> auditLogs (snd (patch_categories s req ident parsed)) = auditLogs s @ [log]
         \<and> body (fst (patch_categories s req ident parsed)) = Entity (Some updated)
         \<and> entityType log = ''category'' \<and> entityId log = JStr ident \<and> action log = ''update''
         \<and> previousData log = Some existing \<and> newData log = Some updated
         \<and> changes log = Some (getChanges existing data)))
   \<and> (status (fst (delete_categories s req ident)) = 200 \<longrightarrow>
      (\<exists>existing log.
           getCategory s (JStr ident) = Some existing
         \<and> getCategory (snd (delete_categories s req ident)) (JStr ident) = None
         \<and> auditLogs (snd (delete_categories s req ident)) = auditLogs s @ [log]
         \<and> entityType log = ''category'' \<and> entityId log = JStr ident \<and> action log = ''delete''
         \<and> previousData log = Some existing \<and> newData log = None \<and> changes log = None))
   \<and> (status (fst (post_assets s req parsed)) = 201 \<longrightarrow>
      (\<exists>asset log.
           assets (snd (post_assets s req parsed)) = assets s @ [asset]
         \<and> auditLogs (snd (post_assets s req parsed)) = auditLogs s @ [log]
         \<and> body (fst (post_assets s req parsed)) = Entity (Some asset)
         \<and> entityType log = ''asset'' \<and> entityId log = get_prop asset ''id''
         \<and> action log = ''create''
         \<and> previousData log = None \<and> newData log = Some asset \<and> changes log = None))
   \<and> (status (fst (patch_assets s req ident parsed)) = 200 \<longrightarrow>
      (\<exists>existing data updated log.
           getAsset s (JStr ident) = Some existing \<and> parsed = Inr data
         \<and> updated = set_values assets_columns existing
               (set_prop data ''updatedAt'' (Date_at (req_time req)))
         \<and> updated \<in> set (assets (snd (patch_assets s req ident parsed)))
         \<and> auditLogs (snd (patch_assets s req ident parsed)) = auditLogs s @ [log]
         \<and> body (fst (patch_assets s req ident parsed)) = Entity (Some updated)
         \<and> entityType log = ''asset'' \<and> entityId log = JStr ident \<and> action log = ''update''
         \<and> previousData log = Some existing \<and> newData log = Some updated
         \<and> changes log = Some (getChanges existing data)))
   \<and> (status (fst (delete_assets s req ident)) = 200 \<longrightarrow>
      (\<exists>existing log.
           getAsset s (JStr ident) = Some existing
         \<and> getAsset (snd (delete_assets s req ident)) (JStr ident) = None
         \<and> auditLogs (snd (delete_assets s req ident)) = auditLogs s @ [log]
         \<and> entityType log = ''asset'' \<and> entityId log = JStr ident \<and> action log = ''delete''
         \<and> previousData log = Some existing \<and> newData log = None \<and> changes log = None))
   \<and> (status (fst (post_ad_users s req parsed)) = 201 \<longrightarrow>
      (\<exists>adUser log.
           adUsers (snd (post_ad_users s req parsed)) = adUsers s @ [adUser]
         \<and> auditLogs (snd (post_ad_users s req parsed)) = auditLogs s @ [log]
         \<and> body (fst (post_ad_users s req parsed)) = Entity (Some adUser)
         \<and> entityType log = ''user'' \<and> entityId log = get_prop adUser ''id''
         \<and> action log = ''create''
         \<and> previousData log = None \<and> newData log = Some adUser \<and> changes log = None))
   \<and> (status (fst (patch_ad_users s req ident parsed)) = 200 \<longrightarrow>
      (\<exists>existing data updated log.
           getAdUser s (JStr ident) = Some existing \<and> parsed = Inr data
         \<and> updated = set_values adUsers_columns existing
               (set_prop data ''updatedAt'' (Date_at (req_time req)))
         \<and> updated \<in> set (adUsers (snd (patch_ad_users s req ident parsed)))
         \<and> auditLogs (snd (patch_ad_users s req ident parsed)) = auditLogs s @ [log]
         \<and> body (fst (patch_ad_users s req ident parsed)) = Entity (Some updated)
         \<and> entityType log = ''user'' \<and> entityId log = JStr ident \<and> action log = ''update''
         \<and> previousData log = Some existing \<and> newData log = Some updated
         \<and> changes log = Some (getChanges existing data)))
   \<and> (status (fst (delete_ad_users s req ident)) = 200 \<longrightarrow>
      (\<exists>existing log.
           getAdUser s (JStr ident) = Some existing
         \<and> getAdUser (snd (delete_ad_users s req ident)) (JStr ident) = None
         \<and> auditLogs (snd (delete_ad_users s req ident)) = auditLogs s @ [log]
         \<and> entityType log = ''user'' \<and> entityId log = JStr ident \<and> action log = ''delete''
         \<and> previousData log = Some existing \<and> newData log = None \<and> changes log = None))
   \<and> (fst (import_row req categoryId s r) \<longrightarrow>
      (\<exists>row asset log.
           r = Row row
         \<and> assets (snd (import_row req categoryId s r)) = assets s @ [asset]
         \<and> auditLogs (snd (import_row req categoryId s r)) = auditLogs s @ [log]
         \<and> entityType log = ''asset'' \<and> entityId log = get_prop asset ''id''
         \<and> action log = ''create'' \<and> previousData log = None
         \<and> newData log = Some (set_prop asset ''source'' (JStr ''import''))
         \<and> changes log = None))
   \<and> (isAuthenticated req \<longrightarrow>
      (\<exists>success failed summary.
           fst (post_import s req (Some rows) categoryId) =
             json (Imported success failed (length rows))
         \<and> length (auditLogs (snd (post_import s req (Some rows) categoryId))) =
             length (auditLogs s) + success + 1
         \<and> last (auditLogs (snd (post_import s req (Some rows) categoryId))) = summary
         \<and> entityType summary = ''system'' \<and> entityId summary = JStr ''import''
         \<and> action summary = ''import''))
   \<and> (status (fst (post_ad_users_sync s req directory)) = 200 \<longrightarrow>
      (\<exists>total created updated log.
           body (fst (post_ad_users_sync s req directory)) = Synced total created updated
         \<and> length (adUsers (snd (post_ad_users_sync s req directory))) =
             length (adUsers s) + created
         \<and> (\<forall>ldapUsers. directory = LdapUsers ldapUsers \<longrightarrow>
              total = length ldapUsers \<and> created + updated = total)
         \<and> auditLogs (snd (post_ad_users_sync s req directory)) = auditLogs s @ [log]
         \<and> entityType log = ''system'' \<and> entityId log = JStr ''ad-sync''
         \<and> action log = ''sync'' \<and> previousData log = None \<and> changes log = None))"
proof -
  have c0: "(status (fst (post_categories s req parsed)) = 201 \<longrightarrow>
      (\<exists>category log.
           categories (snd (post_categories s req parsed)) = categories s @ [category]
         \<and> auditLogs (snd (post_categories s req parsed)) = auditLogs s @ [log]
         \<and> body (fst (post_categories s req parsed)) = Entity (Some category)
         \<and> entityType log = ''category'' \<and> entityId log = get_prop category ''id''
         \<and> action log = ''create''
         \<and> previousData log = None \<and> newData log = Some category \<and> changes log = None))"
  proof
    assume a: "status (fst (post_categories s req parsed)) = 201"
    from post_categories_success[OF a] show "(\<exists>category log.
           categories (snd (post_categories s req parsed)) = categories s @ [category]
         \<and> auditLogs (snd (post_categories s req parsed)) = auditLogs s @ [log]
         \<and> body (fst (post_categories s req parsed)) = Entity (Some category)
         \<and> entityType log = ''category'' \<and> entityId log = get_prop category ''id''
         \<and> action log = ''create''
         \<and> previousData log = None \<and> newData log = Some category \<and> changes log = None)"
      by (elim exE conjE, intro exI conjI) assumption+
  qed
  have c1: "(status (fst (patch_categories s req ident parsed)) = 200 \<longrightarrow>
      (\<exists>existing data updated log.
           getCategory s (JStr ident) = Some existing \<and> parsed = Inr data
         \<and> updated = set_values categories_columns existing
               (set_prop data ''updatedAt'' (Date_at (req_time req)))
         \<and> updated \<in> set (categories (snd (patch_categories s req ident parsed)))
         \<and> auditLogs (snd (patch_categories s req ident parsed)) = auditLogs s @ [log]
         \<and> body (fst (patch_categories s req ident parsed)) = Entity (Some updated)
         \<and> entityType log = ''category'' \<and> entityId log = JStr ident \<and> action log = ''update''
         \<and> previousData log = Some existing \<and> newData log = Some updated
         \<and> changes log = Some (getChanges existing data)))"
  proof
    assume a: "status (fst (patch_categories s req ident parsed)) = 200"
    from patch_categories_success[OF a] show "(\<exists>existing data updated log.
           getCategory s (JStr ident) = Some existing \<and> parsed = Inr data
         \<and> updated = set_values categories_columns existing
               (set_prop data ''updatedAt'' (Date_at (req_time req)))
         \<and> updated \<in> set (categories (snd (patch_categories s req ident parsed)))
         \<and> auditLogs (snd (patch_categories s req ident parsed)) = auditLogs s @ [log]
         \<and> body (fst (patch_categories s req ident parsed)) = Entity (Some updated)
         \<and> entityType log = ''category'' \<and> entityId log = JStr ident \<and> action log = ''update''
         \<and> previousData log = Some existing \<and> newData log = Some updated
         \<and> changes log = Some (getChanges existing data))"
      by (elim exE conjE, intro exI conjI) assumption+
  qed
  have c2: "(status (fst (delete_categories s req ident)) = 200 \<longrightarrow>
      (\<exists>existing log.
           getCategory s (JStr ident) = Some existing
         \<and> getCategory (snd (delete_categories s req ident)) (JStr ident) = None
         \<and> auditLogs (snd (delete_categories s req ident)) = auditLogs s @ [log]
         \<and> entityType log = ''category'' \<and> entityId log = JStr ident \<and> action log = ''delete''
         \<and> previousData log = Some existing \<and> newData log = None \<and> changes log = None))"
  proof
    assume a: "status (fst (delete_categories s req ident)) = 200"
    from delete_categories_success[OF a] show "(\<exists>existing log.
           getCategory s (JStr ident) = Some existing
         \<and> getCategory (snd (delete_categories s req ident)) (JStr ident) = None
         \<and> auditLogs (snd (delete_categories s req ident)) = auditLogs s @ [log]
         \<and> entityType log = ''category'' \<and> entityId log = JStr ident \<and> action log = ''delete''
         \<and> previousData log = Some existing \<and> newData log = None \<and> changes log = None)"
      by (elim exE conjE, intro exI conjI) assumption+
  qed
  have c3: "(status (fst (post_assets s req parsed)) = 201 \<longrightarrow>
      (\<exists>asset log.
           assets (snd (post_assets s req parsed)) = assets s @ [asset]
         \<and> auditLogs (snd (post_assets s req parsed)) = auditLogs s @ [log]
         \<and> body (fst (post_assets s req parsed)) = Entity (Some asset)
         \<and> entityType log = ''asset'' \<and> entityId log = get_prop asset ''id''
         \<and> action log = ''create''
         \<and> previousData log = None \<and> newData log = Some asset \<and> changes log = None))"
  proof
    assume a: "status (fst (post_assets s req parsed)) = 201"
    from post_assets_success[OF a] show "(\<exists>asset log.
           assets (snd (post_assets s req parsed)) = assets s @ [asset]
         \<and> auditLogs (snd (post_assets s req parsed)) = auditLogs s @ [log]
         \<and> body (fst (post_assets s req parsed)) = Entity (Some asset)
         \<and> entityType log = ''asset'' \<and> entityId log = get_prop asset ''id''
         \<and> action log = ''create''
         \<and> previousData log = None \<and> newData log = Some asset \<and> changes log = None)"
      by (elim exE conjE, intro exI conjI) assumption+
  qed
  have c4: "(status (fst (patch_assets s req ident parsed)) = 200 \<longrightarrow>
      (\<exists>existing data updated log.
           getAsset s (JStr ident) = Some existing \<and> parsed = Inr data
         \<and> updated = set_values assets_columns existing
               (set_prop data ''updatedAt'' (Date_at (req_time req)))
         \<and> updated \<in> set (assets (snd (patch_assets s req ident parsed)))
         \<and> auditLogs (snd (patch_assets s req ident parsed)) = auditLogs s @ [log]
         \<and> body (fst (patch_assets s req ident parsed)) = Entity (Some updated)
         \<and> entityType log = ''asset'' \<and> entityId log = JStr ident \<and> action log = ''update''
         \<and> previousData log = Some existing \<and> newData log = Some updated
         \<and> changes log = Some (getChanges existing data)))"
  proof
    assume a: "status (fst (patch_assets s req ident parsed)) = 200"
    from patch_assets_success[OF a] show "(\<exists>existing data updated log.
           getAsset s (JStr ident) = Some existing \<and> parsed = Inr data
         \<and> updated = set_values assets_columns existing
               (set_prop data ''updatedAt'' (Date_at (req_time req)))
         \<and> updated \<in> set (assets (snd (patch_assets s req ident parsed)))
         \<and> auditLogs (snd (patch_assets s req ident parsed)) = auditLogs s @ [log]
         \<and> body (fst (patch_assets s req ident parsed)) = Entity (Some updated)
         \<and> entityType log = ''asset'' \<and> entityId log = JStr ident \<and> action log = ''update''
         \<and> previousData log = Some existing \<and> newData log = Some updated
         \<and> changes log = Some (getChanges existing data))"
      by (elim exE conjE, intro exI conjI) assumption+
  qed
  have c5: "(status (fst (delete_assets s req ident)) = 200 \<longrightarrow>
      (\<exists>existing log.
           getAsset s (JStr ident) = Some existing
         \<and> getAsset (snd (delete_assets s req ident)) (JStr ident) = None
         \<and> auditLogs (snd (delete_assets s req ident)) = auditLogs s @ [log]
         \<and> entityType log = ''asset'' \<and> entityId log = JStr ident \<and> action log = ''delete''
         \<and> previousData log = Some existing \<and> newData log = None \<and> changes log = None))"
  proof
    assume a: "status (fst (delete_assets s req ident)) = 200"
    from delete_assets_success[OF a] show "(\<exists>existing log.
           getAsset s (JStr ident) = Some existing
         \<and> getAsset (snd (delete_assets s req ident)) (JStr ident) = None
         \<and> auditLogs (snd (delete_assets s req ident)) = auditLogs s @ [log]
         \<and> entityType log = ''asset'' \<and> entityId log = JStr ident \<and> action log = ''delete''
         \<and> previousData log = Some existing \<and> newData log = None \<and> changes log = None)"
      by (elim exE conjE, intro exI conjI) assumption+
  qed
  have c6: "(status (fst (post_ad_users s req parsed)) = 201 \<longrightarrow>
      (\<exists>adUser log.
           adUsers (snd (post_ad_users s req parsed)) = adUsers s @ [adUser]
         \<and> auditLogs (snd (post_ad_users s req parsed)) = auditLogs s @ [log]
         \<and> body (fst (post_ad_users s req parsed)) = Entity (Some adUser)
         \<and> entityType log = ''user'' \<and> entityId log = get_prop adUser ''id''
         \<and> action log = ''create''
         \<and> previousData log = None \<and> newData log = Some adUser \<and> changes log = None))"
  proof
    assume a: "status (fst (post_ad_users s req parsed)) = 201"
    from post_ad_users_success[OF a] show "(\<exists>adUser log.
           adUsers (snd (post_ad_users s req parsed)) = adUsers s @ [adUser]
         \<and> auditLogs (snd (post_ad_users s req parsed)) = auditLogs s @ [log]
         \<and> body (fst (post_ad_users s req parsed)) = Entity (Some adUser)
         \<and> entityType log = ''user'' \<and> entityId log = get_prop adUser ''id''
         \<and> action log = ''create''
         \<and> previousData log = None \<and> newData log = Some adUser \<and> changes log = None)"
      by (elim exE conjE, intro exI conjI) assumption+
  qed
  have c7: "(status (fst (patch_ad_users s req ident parsed)) = 200 \<longrightarrow>
      (\<exists>existing data updated log.
           getAdUser s (JStr ident) = Some existing \<and> parsed = Inr data
         \<and> updated = set_values adUsers_columns existing
               (set_prop data ''updatedAt'' (Date_at (req_time req)))
         \<and> updated \<in> set (adUsers (snd (patch_ad_users s req ident parsed)))
         \<and> auditLogs (snd (patch_ad_users s req ident parsed)) = auditLogs s @ [log]
         \<and> body (fst (patch_ad_users s req ident parsed)) = Entity (Some updated)
         \<and> entityType log = ''user'' \<and> entityId log = JStr ident \<and> action log = ''update''
         \<and> previousData log = Some existing \<and> newData log = Some updated
         \<and> changes log = Some (getChanges existing data)))"
  proof
    assume a: "status (fst (patch_ad_users s req ident parsed)) = 200"
    from patch_ad_users_success[OF a] show "(\<exists>existing data updated log.
           getAdUser s (JStr ident) = Some existing \<and> parsed = Inr data
         \<and> updated = set_values adUsers_columns existing
               (set_prop data ''updatedAt'' (Date_at (req_time req)))
         \<and> updated \<in> set (adUsers (snd (patch_ad_users s req ident parsed)))
         \<and> auditLogs (snd (patch_ad_users s req ident parsed)) = auditLogs s @ [log]
         \<and> body (fst (patch_ad_users s req ident parsed)) = Entity (Some updated)
         \<and> entityType log = ''user'' \<and> entityId log = JStr ident \<and> action log = ''update''
         \<and> previousData log = Some existing \<and> newData log = Some updated
         \<and> changes log = Some (getChanges existing data))"
      by (elim exE conjE, intro exI conjI) assumption+
  qed
  have c8: "(status (fst (delete_ad_users s req ident)) = 200 \<longrightarrow>
      (\<exists>existing log.
           getAdUser s (JStr ident) = Some existing
         \<and> getAdUser (snd (delete_ad_users s req ident)) (JStr ident) = None
         \<and> auditLogs (snd (delete_ad_users s req ident)) = auditLogs s @ [log]
         \<and> entityType log = ''user'' \<and> entityId log = JStr ident \<and> action log = ''delete''
         \<and> previousData log = Some existing \<and> newData log = None \<and> changes log = None))"
  proof
    assume a: "status (fst (delete_ad_users s req ident)) = 200"
    from delete_ad_users_success[OF a] show "(\<exists>existing log.
           getAdUser s (JStr ident) = Some existing
         \<and> getAdUser (snd (delete_ad_users s req ident)) (JStr ident) = None
         \<and> auditLogs (snd (delete_ad_users s req ident)) = auditLogs s @ [log]
         \<and> entityType log = ''user'' \<and> entityId log = JStr ident \<and> action log = ''delete''
         \<and> previousData log = Some existing \<and> newData log = None \<and> changes log = None)"
      by (elim exE conjE, intro exI conjI) assumption+
  qed
  have ci: "(fst (import_row req categoryId s r) \<longrightarrow>
      (\<exists>row asset log.
           r = Row row
         \<and> assets (snd (import_row req categoryId s r)) = assets s @ [asset]
         \<and> auditLogs (snd (import_row req categoryId s r)) = auditLogs s @ [log]
         \<and> entityType log = ''asset'' \<and> entityId log = get_prop asset ''id''
         \<and> action log = ''create'' \<and> previousData log = None
         \<and> newData log = Some (set_prop asset ''source'' (JStr ''import''))
         \<and> changes log = None))"
  proof
    assume a: "fst (import_row req categoryId s r)"
    from import_row_imported[OF a] show "(\<exists>row asset log.
           r = Row row
         \<and> assets (snd (import_row req categoryId s r)) = assets s @ [asset]
         \<and> auditLogs (snd (import_row req categoryId s r)) = auditLogs s @ [log]
         \<and> entityType log = ''asset'' \<and> entityId log = get_prop asset ''id''
         \<and> action log = ''create'' \<and> previousData log = None
         \<and> newData log = Some (set_prop asset ''source'' (JStr ''import''))
         \<and> changes log = None)"
      by (elim exE conjE, intro exI conjI) assumption+
  qed
  have cc: "(isAuthenticated req \<longrightarrow>
      (\<exists>success failed summary.
           fst (post_import s req (Some rows) categoryId) =
             json (Imported success failed (length rows))
         \<and> length (auditLogs (snd (post_import s req (Some rows) categoryId))) =
             length (auditLogs s) + success + 1
         \<and> last (auditLogs (snd (post_import s req (Some rows) categoryId))) = summary
         \<and> entityType summary = ''system'' \<and> entityId summary = JStr ''import''
         \<and> action summary = ''import''))"
  proof
    assume a: "isAuthenticated req"
    from post_import_result[OF a, where s = s and rows = rows and categoryId = categoryId] show "(\<exists>success failed summary.
           fst (post_import s req (Some rows) categoryId) =
             json (Imported success failed (length rows))
         \<and> length (auditLogs (snd (post_import s req (Some rows) categoryId))) =
             length (auditLogs s) + success + 1
         \<and> last (auditLogs (snd (post_import s req (Some rows) categoryId))) = summary
         \<and> entityType summary = ''system'' \<and> entityId summary = JStr ''import''
         \<and> action summary = ''import'')"
      by (elim exE conjE, intro exI conjI) assumption+
  qed
  have cs: "(status (fst (post_ad_users_sync s req directory)) = 200 \<longrightarrow>
      (\<exists>total created updated log.
           body (fst (post_ad_users_sync s req directory)) = Synced total created updated
         \<and> length (adUsers (snd (post_ad_users_sync s req directory))) =
             length (adUsers s) + created
         \<and> (\<forall>ldapUsers. directory = LdapUsers ldapUsers \<longrightarrow>
              total = length ldapUsers \<and> created + updated = total)
         \<and> auditLogs (snd (post_ad_users_sync s req directory)) = auditLogs s @ [log]
         \<and> entityType log = ''system'' \<and> entityId log = JStr ''ad-sync''
         \<and> action log = ''sync'' \<and> previousData log = None \<and> changes log = None))"
  proof
    assume a: "status (fst (post_ad_users_sync s req directory)) = 200"
    from post_ad_users_sync_success[OF a] show "(\<exists>total created updated log.
           body (fst (post_ad_users_sync s req directory)) = Synced total created updated
         \<and> length (adUsers (snd (post_ad_users_sync s req directory))) =
             length (adUsers s) + created
         \<and> (\<forall>ldapUsers. directory = LdapUsers ldapUsers \<longrightarrow>
              total = length ldapUsers \<and> created + updated = total)
         \<and> auditLogs (snd (post_ad_users_sync s req directory)) = auditLogs s @ [log]
         \<and> entityType log = ''system'' \<and> entityId log = JStr ''ad-sync''
         \<and> action log = ''sync'' \<and> previousData log = None \<and> changes log = None)"
      by (elim exE conjE, intro exI conjI) assumption+
  qed
  show ?thesis
    by (intro conjI) (rule c0 c1 c2 c3 c4 c5 c6 c7 c8 ci cc cs)+
qed


theorem mutations_write_one_audit_log_witness:
  "status (fst (post_assets example_db example_session
       (Inr [(''assetTag'', JStr ''T9''), (''name'', JStr ''Dock'')]))) = 201
   \<and> length (auditLogs (snd (post_assets example_db example_session
       (Inr [(''assetTag'', JStr ''T9''), (''name'', JStr ''Dock'')])))) =
       length (auditLogs example_db) + 1
   \<and> newData (last (auditLogs (snd (post_assets example_db example_session
       (Inr [(''assetTag'', JStr ''T9''), (''name'', JStr ''Dock'')]))))) =
       Some (last (assets (snd (post_assets example_db example_session
       (Inr [(''assetTag'', JStr ''T9''), (''name'', JStr ''Dock'')])))))
   \<and> status (fst (patch_assets example_db example_session ''uuid-iiiiii''
       (Inr [(''status'', JStr ''retired''), (''name'', JStr ''Laptop'')]))) = 200
   \<and> previousData (last (auditLogs (snd (patch_assets example_db example_session ''uuid-iiiiii''
       (Inr [(''status'', JStr ''retired''), (''name'', JStr ''Laptop'')]))))) =
       getAsset example_db (JStr ''uuid-iiiiii'')
   \<and> changes (last (auditLogs (snd (patch_assets example_db example_session ''uuid-iiiiii''
       (Inr [(''status'', JStr ''retired''), (''name'', JStr ''Laptop'')]))))) =
       Some [\<lparr>field = ''status'', oldValue = JStr ''active'', newValue = JStr ''retired''\<rparr>]
   \<and> status (fst (delete_assets example_db example_session ''uuid-iiiiii'')) = 200
   \<and> previousData (last (auditLogs (snd (delete_assets example_db example_session ''uuid-iiiiii'')))) =
       getAsset example_db (JStr ''uuid-iiiiii'')
   \<and> getAsset (snd (delete_assets example_db example_session ''uuid-iiiiii''))
       (JStr ''uuid-iiiiii'') = None
   \<and> fst (import_row example_session JNull example_db (hd example_rows))
   \<and> newData (last (auditLogs (snd (import_row example_session JNull example_db (hd example_rows))))) =
       Some (set_prop (last (assets (snd (import_row example_session JNull example_db
                                       (hd example_rows))))) ''source'' (JStr ''import''))
   \<and> isAuthenticated example_session
   \<and> length (auditLogs (snd (post_import example_db example_session (Some example_rows) JNull))) =
       length (auditLogs example_db) + 3 + 1
   \<and> status (fst (post_ad_users_sync example_db example_session (LdapUsers example_directory))) = 200
   \<and> fst (post_ad_users_sync example_db example_session (LdapUsers example_directory)) =
       json (Synced 2 1 1)
   \<and> length (adUsers (snd (post_ad_users_sync example_db example_session
                               (LdapUsers example_directory)))) = length (adUsers example_db) + 1
   \<and> length (auditLogs (snd (post_ad_users_sync example_db example_session
                                 (LdapUsers example_directory)))) = length (auditLogs example_db) + 1"
proof -
  let ?new = "Inr [(''assetTag'', JStr ''T9''), (''name'', JStr ''Dock'')] :: string + obj"
  let ?upd = "Inr [(''status'', JStr ''retired''), (''name'', JStr ''Laptop'')] :: string + obj"
  have h1: "status (fst (post_assets example_db example_session ?new)) = 201" by code_simp
  have h2: "status (fst (patch_assets example_db example_session ''uuid-iiiiii'' ?upd)) = 200"
    by code_simp
  have h3: "status (fst (delete_assets example_db example_session ''uuid-iiiiii'')) = 200"
    by code_simp
  have h4: "fst (import_row example_session JNull example_db (hd example_rows))" by code_simp
  have h5: "isAuthenticated example_session" by code_simp
  have h6: "status (fst (post_ad_users_sync example_db example_session
                           (LdapUsers example_directory))) = 200" by code_simp
  have r6: "fst (post_ad_users_sync example_db example_session (LdapUsers example_directory)) =
       json (Synced 2 1 1)" by code_simp
  have r5: "fst (post_import example_db example_session (Some example_rows) JNull) =
      json (Imported 3 3 6)" by code_simp
  have g: "getChanges (the (getAsset example_db (JStr ''uuid-iiiiii'')))
             [(''status'', JStr ''retired''), (''name'', JStr ''Laptop'')] =
           [\<lparr>field = ''status'', oldValue = JStr ''active'', newValue = JStr ''retired''\<rparr>]"
    by code_simp
  note t1 = mutations_write_one_audit_log
      [where s = example_db and req = example_session and parsed = ?new
         and ident = "''uuid-iiiiii''" and r = "hd example_rows" and categoryId = JNull
         and rows = example_rows and directory = "LdapUsers example_directory"]
  note t2 = mutations_write_one_audit_log
      [where s = example_db and req = example_session and parsed = ?upd
         and ident = "''uuid-iiiiii''" and r = "hd example_rows" and categoryId = JNull
         and rows = example_rows and directory = "LdapUsers example_directory"]
  have p1: "length (auditLogs (snd (post_assets example_db example_session ?new))) =
       length (auditLogs example_db) + 1
     \<and> newData (last (auditLogs (snd (post_assets example_db example_session ?new)))) =
       Some (last (assets (snd (post_assets example_db example_session ?new))))"
    using mp[OF t1[THEN conjunct2, THEN conjunct2, THEN conjunct2, THEN conjunct1] h1] by auto
  have p2: "previousData (last (auditLogs (snd (patch_assets example_db example_session
              ''uuid-iiiiii'' ?upd)))) = getAsset example_db (JStr ''uuid-iiiiii'')
     \<and> changes (last (auditLogs (snd (patch_assets example_db example_session
              ''uuid-iiiiii'' ?upd)))) =
       Some [\<lparr>field = ''status'', oldValue = JStr ''active'', newValue = JStr ''retired''\<rparr>]"
    using mp[OF t2[THEN conjunct2, THEN conjunct2, THEN conjunct2, THEN conjunct2, THEN conjunct1] h2] g by auto
  have p3: "previousData (last (auditLogs (snd (delete_assets example_db example_session
              ''uuid-iiiiii'')))) = getAsset example_db (JStr ''uuid-iiiiii'')
     \<and> getAsset (snd (delete_assets example_db example_session ''uuid-iiiiii''))
          (JStr ''uuid-iiiiii'') = None"
    using mp[OF t1[THEN conjunct2, THEN conjunct2, THEN conjunct2, THEN conjunct2, THEN conjunct2, THEN conjunct1] h3] by auto
  have p4: "newData (last (auditLogs (snd (import_row example_session JNull example_db
              (hd example_rows))))) =
       Some (set_prop (last (assets (snd (import_row example_session JNull example_db
                                       (hd example_rows))))) ''source'' (JStr ''import''))"
    using mp[OF t1[THEN conjunct2, THEN conjunct2, THEN conjunct2, THEN conjunct2, THEN conjunct2, THEN conjunct2, THEN conjunct2, THEN conjunct2, THEN conjunct2, THEN conjunct1] h4] by auto
  have p5: "length (auditLogs (snd (post_import example_db example_session (Some example_rows)
              JNull))) = length (auditLogs example_db) + 3 + 1"
    using mp[OF t1[THEN conjunct2, THEN conjunct2, THEN conjunct2, THEN conjunct2, THEN conjunct2, THEN conjunct2, THEN conjunct2, THEN conjunct2, THEN conjunct2, THEN conjunct2, THEN conjunct1] h5] r5 by (auto simp: json_def)
  have p6: "length (adUsers (snd (post_ad_users_sync example_db example_session
                               (LdapUsers example_directory)))) = length (adUsers example_db) + 1
     \<and> length (auditLogs (snd (post_ad_users_sync example_db example_session
                                 (LdapUsers example_directory)))) = length (auditLogs example_db) + 1"
    using mp[OF t1[THEN conjunct2, THEN conjunct2, THEN conjunct2, THEN conjunct2, THEN conjunct2, THEN conjunct2, THEN conjunct2, THEN conjunct2, THEN conjunct2, THEN conjunct2, THEN conjunct2] h6] r6 by (auto simp: json_def)
  show ?thesis
    by (intro conjI) (rule h1 h2 h3 h4 h5 h6 r6 p1[THEN conjunct1] p1[THEN conjunct2]
          p2[THEN conjunct1] p2[THEN conjunct2] p3[THEN conjunct1] p3[THEN conjunct2] p4 p5
          p6[THEN conjunct1] p6[THEN conjunct2])+
qed

text \<open>
  The claim as first stated departs from the program in three places. It has every
  create store the new record itself as \<open>newData\<close>: for a row created by the import the
  stored \<open>newData\<close> is not the new asset, it has the further property \<open>source\<close>. It has
  every create and update of a directory user write one audit log: a synchronisation
  that creates two directory users writes a single audit log, of entity type \<open>system\<close>.
  And it has an update store the diff of the two snapshots it stores: an update of the
  status at a later time stores the one change of \<open>status\<close>, while the old and the
  updated row also differ in \<open>updatedAt\<close>, the time of the creation in the one and of
  the update in the other.
\<close>

theorem audit_records_counterexample:
  "fst (import_row example_session JNull empty_db
          (Row [(''assetTag'', JStr ''T2''), (''name'', JStr ''Monitor'')]))
   \<and> map newData (auditLogs (snd (import_row example_session JNull empty_db
          (Row [(''assetTag'', JStr ''T2''), (''name'', JStr ''Monitor'')]))))
     \<noteq> map Some (assets (snd (import_row example_session JNull empty_db
          (Row [(''assetTag'', JStr ''T2''), (''name'', JStr ''Monitor'')]))))
   \<and> fst (post_ad_users_sync empty_db example_session (LdapUsers example_directory)) =
       json (Synced 2 2 0)
   \<and> length (adUsers (snd (post_ad_users_sync empty_db example_session
                               (LdapUsers example_directory)))) = 2
   \<and> map (\<lambda>l. (entityType l, action l, newData l = None))
        (auditLogs (snd (post_ad_users_sync empty_db example_session
                           (LdapUsers example_directory)))) = [(''system'', ''sync'', False)]
   \<and> status (fst (patch_assets example_db (example_session\<lparr>req_time := 8\<rparr>) ''uuid-iiiiii''
                    (Inr [(''status'', JStr ''retired'')]))) = 200
   \<and> map field (the (changes (last (auditLogs (snd
        (patch_assets example_db (example_session\<lparr>req_time := 8\<rparr>) ''uuid-iiiiii''
           (Inr [(''status'', JStr ''retired'')]))))))) = [''status'']
   \<and> get_prop (the (previousData (last (auditLogs (snd
           (patch_assets example_db (example_session\<lparr>req_time := 8\<rparr>) ''uuid-iiiiii''
              (Inr [(''status'', JStr ''retired'')]))))))) ''updatedAt'' = Date_at 4
   \<and> get_prop (the (newData (last (auditLogs (snd
           (patch_assets example_db (example_session\<lparr>req_time := 8\<rparr>) ''uuid-iiiiii''
              (Inr [(''status'', JStr ''retired'')]))))))) ''updatedAt'' = Date_at 8
   \<and> Date_at 4 \<noteq> Date_at 8"
  by code_simp

section \<open>The bulk import\<close>



section \<open>Audit logs are append-only\<close>

text \<open>
  Claim C6. No call updates or deletes an audit log: the audit logs before a call are a
  prefix of those after it, and so of those after any sequence of calls; a log once
  written keeps its position and content in every later state. The only storage
  operation that writes the table, \<open>createAuditLog\<close>, appends one row.
\<close>

theorem audit_logs_append_only:
  "prefix (auditLogs s) (auditLogs (snd (handle env s c)))
   \<and> prefix (auditLogs s) (auditLogs (run env s cs))
   \<and> (\<forall>i. i < length (auditLogs s) \<longrightarrow>
          i < length (auditLogs (run env s cs)) \<and> auditLogs (run env s cs) ! i = auditLogs s ! i)
   \<and> auditLogs (snd (createAuditLog s now d)) = auditLogs s @ [fst (createAuditLog s now d)]"
proof -
  have p: "prefix (auditLogs s) (auditLogs (run env s cs))"
    using run_frame by blast
  then obtain zs where z: "auditLogs (run env s cs) = auditLogs s @ zs"
    by (auto simp: prefix_def)
  have n: "\<forall>i. i < length (auditLogs s) \<longrightarrow>
          i < length (auditLogs (run env s cs)) \<and> auditLogs (run env s cs) ! i = auditLogs s ! i"
    by (simp add: z nth_append)
  have h: "prefix (auditLogs s) (auditLogs (snd (handle env s c)))"
    using handle_frame by blast
  show ?thesis
    using p n h createAuditLog_tables(1) by blast
qed

theorem audit_logs_append_only_witness:
  "length (auditLogs example_db) = 4
   \<and> length (auditLogs (run example_env example_db
        [DeleteAssets example_session ''uuid-iiiiii'',
         PostImport example_session (Some example_rows) JNull])) = 9
   \<and> take 4 (auditLogs (run example_env example_db
        [DeleteAssets example_session ''uuid-iiiiii'',
         PostImport example_session (Some example_rows) JNull])) = auditLogs example_db"
proof -
  let ?cs = "[DeleteAssets example_session ''uuid-iiiiii'',
              PostImport example_session (Some example_rows) JNull]"
  have l: "length (auditLogs example_db) = 4" by code_simp
  have m: "length (auditLogs (run example_env example_db ?cs)) = 9" by code_simp
  have "prefix (auditLogs example_db) (auditLogs (run example_env example_db ?cs))"
    using audit_logs_append_only [where s = example_db and env = example_env and cs = ?cs]
    by blast
  then have "take (length (auditLogs example_db)) (auditLogs (run example_env example_db ?cs)) =
      auditLogs example_db"
    by (auto simp: prefix_def)
  with l m show ?thesis by simp
qed

section \<open>Uniqueness of asset tags\<close>

text \<open>
  The constraints of the schema hold in every state the server reaches from the empty
  database, so no two assets share a tag; and \<open>PATCH /api/assets/:id\<close> answers 400 and
  changes nothing when the new tag is truthy, differs from the asset's own and is taken.
\<close>

lemma reachable_constraints: "constraints (run env empty_db cs)"
  using run_frame[of empty_db env cs] constraints_empty_db by blast

lemma reachable_asset_tags_distinct:
  "distinct (column_values ''assetTag'' (assets (run env empty_db cs)))"
  using reachable_constraints by (rule constraints_distinct_tags)

lemma patch_assets_duplicate_tag:
  assumes "isAuthenticated req" "getAsset s (JStr ident) = Some existing"
    "truthy (get_prop data ''assetTag'')"
    "strict_neq (get_prop data ''assetTag'') (get_prop existing ''assetTag'')"
    "getAssetByTag s (get_prop data ''assetTag'') \<noteq> None"
  shows "patch_assets s req ident (Inr data) =
           (\<lparr>status = 400, body = Message ''Asset tag already exists''\<rparr>, s)"
  using assms by (auto simp: patch_assets_def)

text \<open>
  Claim C3, at the input where the program departs from it. \<open>PATCH /api/assets/:id\<close>
  tests \<open>data.assetTag && ...\<close> before it looks the tag up, so the empty string, which
  \<open>POST /api/assets\<close> accepts as a tag and checks for, skips the check. With one asset
  tagged \<open>""\<close> and another tagged \<open>T1\<close>, changing the second one's tag to \<open>""\<close> reaches the
  \<open>UPDATE\<close>, the unique constraint makes it throw, and the response is 500 rather than
  400; nothing is changed. The same tag on \<open>POST /api/assets\<close> is answered with 400.
\<close>

theorem patch_assets_empty_tag_conflict:
  "getAssetByTag example_db (JStr '''') \<noteq> None
   \<and> map_option (\<lambda>a. get_prop a ''assetTag'') (getAsset example_db (JStr ''uuid-iiiiii''))
       = Some (JStr ''T1'')
   \<and> patch_assets example_db example_session ''uuid-iiiiii'' (Inr [(''assetTag'', JStr '''')]) =
       (\<lparr>status = 500, body = Message ''Failed to update asset''\<rparr>, example_db)
   \<and> fst (post_assets example_db example_session
            (Inr [(''assetTag'', JStr ''''), (''name'', JStr ''Other'')])) =
       \<lparr>status = 400, body = Message ''Asset tag already exists''\<rparr>"
  by code_simp


end
